theory Spec2Isabelle
  imports Complex_Main "HOL-Library.AList" "HOL-Library.Multiset"
begin

section \<open>Package serverinfo: the status document\<close>

text \<open>
  Modelled from the spec: the type declarations of package \<open>serverinfo\<close>
  (\<open>ServerInfo\<close> and the structs nested in it) are not part of the source file. The
  records below hold exactly the fields that \<open>client.go\<close> reads, under the paths it
  reads them by. A numeric field holds the value of a Go integer as a number; which
  integer type the package declares for it is not known from the source file, and where
  the collector computes in that type, the type is a parameter (see \<open>go_int\<close> below).
  Text fields are Go strings, that is arbitrary byte sequences.
\<close>

record Apps =
  Installed :: int
  AvailableUpdates :: int

record System =
  Version :: string
  FreeSpace :: int
  Apps :: Apps

record Storage =
  Users :: int
  Files :: int

record Shares =
  SharesUser :: int
  SharesGroups :: int
  SharesLink :: int
  SharesLinkNoPassword :: int
  FedSent :: int
  FedReceived :: int

record Nextcloud =
  System :: System
  Storage :: Storage
  Shares :: Shares

record OpCacheStats =
  Hits :: int
  Misses :: int
  CachedScripts :: int
  CachedKeys :: int

record OpCache =
  Stats :: OpCacheStats

record APCuCache =
  Hits :: int
  Misses :: int
  Inserts :: int
  Entries :: int

record APCu =
  Cache :: APCuCache

record PHP =
  Version :: string
  MemoryLimit :: int
  UploadMaxFilesize :: int
  OpCache :: OpCache
  APCu :: APCu

record Database =
  Type :: string
  Version :: string
  Size :: int

record Server =
  PHP :: PHP
  Database :: Database

record ActiveUsers =
  Last5Minutes :: int

record Data =
  Nextcloud :: Nextcloud
  Server :: Server
  ActiveUsers :: ActiveUsers

record ServerInfo =
  Data :: Data

section \<open>Go's integers and their conversion to float64\<close>

text \<open>
  A fixed-width integer type of Go, signed or unsigned, with its number of bits.
  Arithmetic in such a type wraps around: \<open>wrap\<close> brings a number back into the range
  of the type, two's complement for the signed ones, and \<open>go_sub\<close> is the
  subtraction \<open>a - b\<close> of two values of the type. \<open>in_range\<close> says that a number is
  a value of the type.
\<close>

datatype go_int = Signed nat | Unsigned nat

definition wrap :: "go_int \<Rightarrow> int \<Rightarrow> int" where
  "wrap ty x =
     (case ty of
        Unsigned n \<Rightarrow> x mod 2 ^ n
      | Signed n \<Rightarrow> (x + 2 ^ n div 2) mod 2 ^ n - 2 ^ n div 2)"


definition go_sub :: "go_int \<Rightarrow> int \<Rightarrow> int \<Rightarrow> int" where
  "go_sub ty a b = wrap ty (a - b)"

text \<open>
  The conversion \<open>float64(x)\<close> of an integer: the nearest number with a significand
  of 53 bits, a tie going to the even significand. \<open>nbits\<close> is the length of a number
  in binary, so \<open>2 ^ e\<close> below is the distance between neighbouring floating-point
  numbers at the size of \<open>x\<close>; integers of up to 53 bits convert to themselves. No
  integer of 64 bits or fewer is beyond the range of \<open>float64\<close>.
\<close>

type_synonym float64 = real

fun nbits :: "nat \<Rightarrow> nat" where
  "nbits n = (if n = 0 then 0 else Suc (nbits (n div 2)))"

declare nbits.simps [simp del]

definition float64 :: "int \<Rightarrow> float64" where
  "float64 x =
     (let a = nat \<bar>x\<bar>;
          e = nbits a - 53;
          q = a div 2 ^ e;
          r = a mod 2 ^ e;
          q' = (if 2 ^ e < 2 * r \<or> (2 * r = 2 ^ e \<and> odd q) then q + 1 else q)
      in of_int (sgn x * int (q' * 2 ^ e)))"

section \<open>Package client: the status fetcher\<close>

text \<open>
  Go's \<open>error\<close> values as they occur in the source. \<open>External\<close> carries the message
  of an error made by a library (\<open>net/http\<close>, the JSON parser); the two sentinel errors
  are the package variables \<open>ErrNotAuthorized\<close> and \<open>ErrRatelimit\<close>; every
  \<open>fmt.Errorf\<close> of the source has a constructor of its own, the ones with \<open>%w\<close>
  holding the wrapped error (the descriptor printed into the message of
  \<open>ErrorCreatingMetric\<close> is represented by its name). The last three are the errors
  of \<open>prometheus.NewConstMetric\<close>.
\<close>

datatype error =
    External string
  | ErrNotAuthorized
  | ErrRatelimit
  | UnexpectedStatusCode int
  | CanNotParseServerInfo error
  | ErrorCreatingMetric string error
  | ErrorCreatingSharesMetric string error
  | DescError string
  | InconsistentCardinality nat nat
  | InvalidLabelValue string

record Client =
  Timeout :: int
  InsecureSkipVerify :: bool

record Request =
  Method :: string
  URL :: string
  Header :: "(string \<times> string) list"

record Response =
  StatusCode :: int
  Body :: string

text \<open>
  What lies outside the program during one scrape: whether \<open>http.NewRequest\<close>
  rejects the URL, what \<open>client.Do\<close> answers to a request (a transport error or a
  response), the parser \<open>serverinfo.ParseJSON\<close>, which is not part of the source
  file and is taken as a parameter, the integer type that package \<open>serverinfo\<close>
  declares for the share counters, and the order in which the Go runtime walks each of
  the three maps that are ranged over (the shares map, the federation map and the
  children of the counter vector), given as choice sequences for \<open>range_map\<close> below.
\<close>

record world =
  url_error :: "string \<Rightarrow> string option"
  Do :: "Client \<Rightarrow> Request \<Rightarrow> string + Response"
  ParseJSON :: "string \<Rightarrow> string + ServerInfo"
  shares_int :: go_int
  shares_order :: "nat list"
  federations_order :: "nat list"
  children_order :: "nat list"

text \<open>The calls of one fetch that reach the outside, in the order they happen.\<close>

datatype event = EvDo Request | EvParseJSON string | EvBodyClose

definition NewRequest :: "world \<Rightarrow> string \<Rightarrow> string \<Rightarrow> error + Request" where
  "NewRequest w method url =
     (case url_error w url of
        Some msg \<Rightarrow> Inl (External msg)
      | None \<Rightarrow> Inr \<lparr>Method = method, URL = url, Header = []\<rparr>)"

definition Header_Set :: "string \<Rightarrow> string \<Rightarrow> Request \<Rightarrow> Request" where
  "Header_Set key val req = req\<lparr>Header := AList.update key val (Header req)\<rparr>"

text \<open>\<open>encoding/base64\<close>, standard alphabet with padding, on a list of bytes.\<close>

definition encodeStd :: string where
  "encodeStd = ''ABCDEFGHIJKLMNOPQRSTUVWXYZabcdefghijklmnopqrstuvwxyz0123456789+/''"

fun EncodeToString :: "nat list \<Rightarrow> string" where
  "EncodeToString [] = []"
| "EncodeToString [a] =
     [encodeStd ! (a div 4), encodeStd ! ((a mod 4) * 16), CHR ''='', CHR ''='']"
| "EncodeToString [a, b] =
     [encodeStd ! (a div 4), encodeStd ! ((a mod 4) * 16 + b div 16),
      encodeStd ! ((b mod 16) * 4), CHR ''='']"
| "EncodeToString (a # b # c # bs) =
     [encodeStd ! (a div 4), encodeStd ! ((a mod 4) * 16 + b div 16),
      encodeStd ! ((b mod 16) * 4 + c div 64), encodeStd ! (c mod 64)] @ EncodeToString bs"

definition basicAuth :: "string \<Rightarrow> string \<Rightarrow> string" where
  "basicAuth username password =
     EncodeToString (map of_char (username @ '':'' @ password))"

definition SetBasicAuth :: "string \<Rightarrow> string \<Rightarrow> Request \<Rightarrow> Request" where
  "SetBasicAuth username password req =
     Header_Set ''Authorization'' (''Basic '' @ basicAuth username password) req"

type_synonym InfoClient = "world \<Rightarrow> (error + ServerInfo) \<times> event list"

text \<open>
  \<open>New\<close> returns the closure that performs one fetch. The closure's result is paired
  with the trace of its outside calls; \<open>defer res.Body.Close()\<close> runs last on every
  path that got a response.
\<close>

definition New ::
  "string \<Rightarrow> string \<Rightarrow> string \<Rightarrow> string \<Rightarrow> int \<Rightarrow> string \<Rightarrow> bool \<Rightarrow> InfoClient" where
  "New infoURL username password authToken timeout userAgent tlsSkipVerify =
     (let client = \<lparr>Timeout = timeout, InsecureSkipVerify = tlsSkipVerify\<rparr> in
      (\<lambda>w.
        case NewRequest w ''GET'' infoURL of
          Inl err \<Rightarrow> (Inl err, [])
        | Inr req0 \<Rightarrow>
            (let req1 = (if authToken = ''''
                         then SetBasicAuth username password req0
                         else Header_Set ''NC-Token'' authToken req0);
                 req = Header_Set ''User-Agent'' userAgent req1
             in case Do w client req of
                  Inl msg \<Rightarrow> (Inl (External msg), [EvDo req])
                | Inr res \<Rightarrow>
                    (if StatusCode res = 401 then
                       (Inl ErrNotAuthorized, [EvDo req, EvBodyClose])
                     else if StatusCode res = 429 then
                       (Inl ErrRatelimit, [EvDo req, EvBodyClose])
                     else if StatusCode res \<noteq> 200 then
                       (Inl (UnexpectedStatusCode (StatusCode res)), [EvDo req, EvBodyClose])
                     else
                       (case ParseJSON w (Body res) of
                          Inl msg \<Rightarrow>
                            (Inl (CanNotParseServerInfo (External msg)),
                             [EvDo req, EvParseJSON (Body res), EvBodyClose])
                        | Inr status \<Rightarrow>
                            (Inr status,
                             [EvDo req, EvParseJSON (Body res), EvBodyClose]))))))"

section \<open>The metrics library, as far as the collector uses it\<close>

text \<open>
  The collector is written against the library \<open>prometheus/client_golang\<close>, which is
  not part of the repository. What the collector calls is modelled here after the
  library's behaviour: descriptors, constant metrics and their validation, a gauge, and a
  counter vector that sends one metric for each child created so far.
\<close>

record Desc =
  fqName :: string
  helpText :: string
  variableLabels :: "string list"
  err :: "string option"

text \<open>
  Name rules of the library (the classic ones): a metric name is non-empty and made of
  letters, \<open>_\<close>, \<open>:\<close> and, after the first position, digits; a label name likewise
  without \<open>:\<close>, and it must not begin with \<open>__\<close>.
\<close>

definition isValidLegacyRune :: "bool \<Rightarrow> bool \<Rightarrow> char \<Rightarrow> bool" where
  "isValidLegacyRune colon first b =
     (let n = (of_char b :: nat) in
      (97 \<le> n \<and> n \<le> 122) \<or> (65 \<le> n \<and> n \<le> 90) \<or> n = 95 \<or> (colon \<and> n = 58)
      \<or> (48 \<le> n \<and> n \<le> 57 \<and> \<not> first))"

definition IsValidMetricName :: "string \<Rightarrow> bool" where
  "IsValidMetricName n =
     (case n of [] \<Rightarrow> False
      | b # bs \<Rightarrow> isValidLegacyRune True True b \<and> list_all (isValidLegacyRune True False) bs)"

definition checkLabelName :: "string \<Rightarrow> bool" where
  "checkLabelName l =
     ((case l of [] \<Rightarrow> False
       | b # bs \<Rightarrow> isValidLegacyRune False True b \<and> list_all (isValidLegacyRune False False) bs)
      \<and> take 2 l \<noteq> ''__'')"

definition NewDesc :: "string \<Rightarrow> string \<Rightarrow> string list \<Rightarrow> Desc" where
  "NewDesc name hlp labels =
     (let d = \<lparr>fqName = name, helpText = hlp, variableLabels = labels, err = None\<rparr> in
      if \<not> IsValidMetricName name then d\<lparr>err := Some ''not a valid metric name''\<rparr>
      else if \<not> list_all checkLabelName labels
        then d\<lparr>err := Some ''not a valid label name''\<rparr>
      else if \<not> distinct labels then d\<lparr>err := Some ''duplicate label names''\<rparr>
      else d)"

text \<open>\<open>utf8.ValidString\<close> on the bytes of a string: the well-formed byte sequences of UTF-8.\<close>

definition cont :: "nat \<Rightarrow> bool" where
  "cont b = (128 \<le> b \<and> b \<le> 191)"

fun ValidBytes :: "nat list \<Rightarrow> bool" where
  "ValidBytes [] = True"
| "ValidBytes (b0 # bs) =
     (if b0 < 128 then ValidBytes bs
      else if 194 \<le> b0 \<and> b0 \<le> 223 then
        (case bs of b1 # r \<Rightarrow> cont b1 \<and> ValidBytes r | _ \<Rightarrow> False)
      else if 224 \<le> b0 \<and> b0 \<le> 239 then
        (case bs of
           b1 # b2 # r \<Rightarrow>
             (if b0 = 224 then 160 \<le> b1 \<and> b1 \<le> 191
              else if b0 = 237 then 128 \<le> b1 \<and> b1 \<le> 159
              else cont b1) \<and> cont b2 \<and> ValidBytes r
         | _ \<Rightarrow> False)
      else if 240 \<le> b0 \<and> b0 \<le> 244 then
        (case bs of
           b1 # b2 # b3 # r \<Rightarrow>
             (if b0 = 240 then 144 \<le> b1 \<and> b1 \<le> 191
              else if b0 = 244 then 128 \<le> b1 \<and> b1 \<le> 143
              else cont b1) \<and> cont b2 \<and> cont b3 \<and> ValidBytes r
         | _ \<Rightarrow> False)
      else False)"

definition ValidString :: "string \<Rightarrow> bool" where
  "ValidString s = ValidBytes (map of_char s)"

definition validateLabelValues :: "string list \<Rightarrow> nat \<Rightarrow> error option" where
  "validateLabelValues vals expectedNumberOfValues =
     (if length vals \<noteq> expectedNumberOfValues
        then Some (InconsistentCardinality expectedNumberOfValues (length vals))
      else (case find (\<lambda>v. \<not> ValidString v) vals of
              Some v \<Rightarrow> Some (InvalidLabelValue v)
            | None \<Rightarrow> None))"

datatype ValueType = CounterValue | GaugeValue | UntypedValue

record Metric =
  desc :: Desc
  valType :: ValueType
  val :: float64
  labelValues :: "string list"

definition NewConstMetric ::
  "Desc \<Rightarrow> ValueType \<Rightarrow> float64 \<Rightarrow> string list \<Rightarrow> error + Metric" where
  "NewConstMetric d valueType v lvs =
     (case err d of
        Some msg \<Rightarrow> Inl (DescError msg)
      | None \<Rightarrow>
          (case validateLabelValues lvs (length (variableLabels d)) of
             Some e \<Rightarrow> Inl e
           | None \<Rightarrow> Inr \<lparr>desc = d, valType = valueType, val = v, labelValues = lvs\<rparr>))"

text \<open>
  Ranging over a Go map visits its entries in an order the runtime chooses. The map is
  an association list with distinct keys; the choice sequence picks, entry by entry,
  which of the remaining ones comes next, so that every order arises from some sequence.
\<close>

function range_map :: "nat list \<Rightarrow> 'a list \<Rightarrow> 'a list" where
  "range_map cs [] = []"
| "range_map [] (x # xs) = x # xs"
| "range_map (c # cs) (x # xs) =
     (let i = c mod length (x # xs)
      in (x # xs) ! i # range_map cs (take i (x # xs) @ drop (Suc i) (x # xs)))"
  by pat_completeness auto
termination
  by (relation "measure (\<lambda>(cs, xs). length xs)") auto

text \<open>
  A gauge is its current value; a counter vector is the association list of its
  children, from label values to the child's count. Their descriptors are fixed when the
  collector is made and are the constants \<open>upDesc\<close> and \<open>scrapeErrorsDesc\<close> below.
  \<open>WithLabelValues\<close> panics (\<open>None\<close>) when the label values do not fit the
  descriptor, and otherwise makes sure that the child exists.
\<close>

type_synonym Gauge = float64
type_synonym CounterVec = "(string list \<times> float64) list"

definition Gauge_Collect :: "Desc \<Rightarrow> Gauge \<Rightarrow> Metric list \<Rightarrow> Metric list" where
  "Gauge_Collect d g ch = ch @ [\<lparr>desc = d, valType = GaugeValue, val = g, labelValues = []\<rparr>]"

definition WithLabelValues :: "Desc \<Rightarrow> CounterVec \<Rightarrow> string list \<Rightarrow> CounterVec option" where
  "WithLabelValues d cv lvs =
     (case validateLabelValues lvs (length (variableLabels d)) of
        Some e \<Rightarrow> None
      | None \<Rightarrow> Some (case map_of cv lvs of None \<Rightarrow> cv @ [(lvs, 0)] | Some v \<Rightarrow> cv))"

definition Inc :: "string list \<Rightarrow> CounterVec \<Rightarrow> CounterVec" where
  "Inc lvs cv = AList.map_entry lvs (\<lambda>v. v + 1) cv"

definition CounterVec_Collect ::
  "nat list \<Rightarrow> Desc \<Rightarrow> CounterVec \<Rightarrow> Metric list \<Rightarrow> Metric list" where
  "CounterVec_Collect order d cv ch =
     ch @ map (\<lambda>(lvs, v). \<lparr>desc = d, valType = CounterValue, val = v, labelValues = lvs\<rparr>)
            (range_map order cv)"

section \<open>Package metrics: the collector\<close>

definition metricPrefix :: string where
  "metricPrefix = ''nextcloud_''"

definition labelErrorCauseOther :: string where
  "labelErrorCauseOther = ''other''"

definition labelErrorCauseAuth :: string where
  "labelErrorCauseAuth = ''auth''"

definition systemInfoDesc :: Desc where
  "systemInfoDesc = NewDesc (metricPrefix @ ''system_info'')
     ''Contains meta information about Nextcloud as labels. Value is always 1.''
     [''version'']"

definition appsInstalledDesc :: Desc where
  "appsInstalledDesc = NewDesc (metricPrefix @ ''apps_installed_total'')
     ''Number of currently installed apps'' []"

definition appsUpdatesDesc :: Desc where
  "appsUpdatesDesc = NewDesc (metricPrefix @ ''apps_updates_available_total'')
     ''Number of apps that have available updates'' []"

definition usersDesc :: Desc where
  "usersDesc = NewDesc (metricPrefix @ ''users_total'')
     ''Number of users of the instance.'' []"

definition filesDesc :: Desc where
  "filesDesc = NewDesc (metricPrefix @ ''files_total'')
     ''Number of files served by the instance.'' []"

definition freeSpaceDesc :: Desc where
  "freeSpaceDesc = NewDesc (metricPrefix @ ''free_space_bytes'')
     ''Free disk space in data directory in bytes.'' []"

definition sharesDesc :: Desc where
  "sharesDesc = NewDesc (metricPrefix @ ''shares_total'')
     ''Number of shares by type.'' [''type'']"

definition federationsDesc :: Desc where
  "federationsDesc = NewDesc (metricPrefix @ ''shares_federated_total'')
     ''Number of federated shares by direction.'' [''direction'']"

definition activeUsersDesc :: Desc where
  "activeUsersDesc = NewDesc (metricPrefix @ ''active_users_total'')
     ''Number of active users for the last five minutes.'' []"

definition phpInfoDesc :: Desc where
  "phpInfoDesc = NewDesc (metricPrefix @ ''php_info'')
     ''Contains meta information about PHP as labels. Value is always 1.''
     [''version'']"

definition phpMemoryLimitDesc :: Desc where
  "phpMemoryLimitDesc = NewDesc (metricPrefix @ ''php_memory_limit_bytes'')
     ''Configured PHP memory limit in bytes.'' []"

definition phpMaxUploadSizeDesc :: Desc where
  "phpMaxUploadSizeDesc = NewDesc (metricPrefix @ ''php_upload_max_size_bytes'')
     ''Configured maximum upload size in bytes.'' []"

definition phpOpCacheHits :: Desc where
  "phpOpCacheHits = NewDesc (metricPrefix @ ''php_opcache_hits_total'')
     ''Number of hits to scripts cached in OpCache.'' []"

definition phpOpCacheMisses :: Desc where
  "phpOpCacheMisses = NewDesc (metricPrefix @ ''php_opcache_misses_total'')
     ''Number of misses in OpCache.'' []"

definition phpOpCachedScripts :: Desc where
  "phpOpCachedScripts = NewDesc (metricPrefix @ ''php_opcache_scripts_total'')
     ''Number of scripts cached in OpCache.'' []"

definition phpOpCachedKeys :: Desc where
  "phpOpCachedKeys = NewDesc (metricPrefix @ ''php_opcache_keys_total'')
     ''Number of keys in OpCache.'' []"

definition phpAPCuHits :: Desc where
  "phpAPCuHits = NewDesc (metricPrefix @ ''php_apcu_hits_total'')
     ''Number of hits in APCu cache.'' []"

definition phpAPCuMisses :: Desc where
  "phpAPCuMisses = NewDesc (metricPrefix @ ''php_apcu_misses_total'')
     ''Number of misses in APCu cache.'' []"

definition phpAPCuInserts :: Desc where
  "phpAPCuInserts = NewDesc (metricPrefix @ ''php_apcu_inserts_total'')
     ''Number of inserts into APCu cache.'' []"

definition phpAPCuEntries :: Desc where
  "phpAPCuEntries = NewDesc (metricPrefix @ ''php_apcu_keys_total'')
     ''Number of entries cached in APCu.'' []"

definition databaseSizeDesc :: Desc where
  "databaseSizeDesc = NewDesc (metricPrefix @ ''database_size_bytes'')
     ''Size of database in bytes as reported from engine.'' [''version'', ''type'']"

text \<open>
  The descriptors that \<open>prometheus.NewGauge\<close> and \<open>prometheus.NewCounterVec\<close> build
  from the options given in \<open>RegisterCollector\<close>.
\<close>

definition upDesc :: Desc where
  "upDesc = NewDesc (metricPrefix @ ''up'')
     ''Indicates if the metrics could be scraped by the exporter.'' []"

definition scrapeErrorsDesc :: Desc where
  "scrapeErrorsDesc = NewDesc (metricPrefix @ ''scrape_errors_total'')
     ''Counts the number of scrape errors by this collector.'' [''cause'']"

text \<open>
  The collector. The field \<open>log\<close> of the source is the list of the errors logged so
  far; the gauge and the counter vector start at zero and without children.
\<close>

record nextcloudCollector =
  log_lines :: "error list"
  infoClient :: InfoClient
  upMetric :: Gauge
  scrapeErrorsMetric :: CounterVec

definition RegisterCollector :: "InfoClient \<Rightarrow> nextcloudCollector" where
  "RegisterCollector ic =
     \<lparr>log_lines = [], infoClient = ic, upMetric = 0, scrapeErrorsMetric = []\<rparr>"

definition nextcloudCollector_Describe :: "nextcloudCollector \<Rightarrow> Desc list \<Rightarrow> Desc list" where
  "nextcloudCollector_Describe c ch =
     ch @ [upDesc] @ [scrapeErrorsDesc] @ [usersDesc] @ [filesDesc] @ [freeSpaceDesc]
        @ [sharesDesc] @ [federationsDesc] @ [activeUsersDesc]"

text \<open>
  Every function that sends on the channel takes the metrics sent so far and returns
  them with its own appended, next to its error (\<open>None\<close> for \<open>nil\<close>).
\<close>

fun collectSimpleMetrics_loop ::
  "Metric list \<Rightarrow> (Desc \<times> float64) list \<Rightarrow> Metric list \<times> error option" where
  "collectSimpleMetrics_loop ch [] = (ch, None)"
| "collectSimpleMetrics_loop ch (m # ms) =
     (case NewConstMetric (fst m) GaugeValue (snd m) [] of
        Inl e \<Rightarrow> (ch, Some (ErrorCreatingMetric (fqName (fst m)) e))
      | Inr metric \<Rightarrow> collectSimpleMetrics_loop (ch @ [metric]) ms)"

definition collectSimpleMetrics :: "Metric list \<Rightarrow> ServerInfo \<Rightarrow> Metric list \<times> error option" where
  "collectSimpleMetrics ch status =
     (let metrics =
        [(appsInstalledDesc, float64 (Installed (System.Apps (System (Nextcloud (Data status)))))),
         (appsUpdatesDesc, float64 (AvailableUpdates (System.Apps (System (Nextcloud (Data status)))))),
         (usersDesc, float64 (Users (Storage (Nextcloud (Data status))))),
         (filesDesc, float64 (Files (Storage (Nextcloud (Data status))))),
         (freeSpaceDesc, float64 (FreeSpace (System (Nextcloud (Data status))))),
         (activeUsersDesc, float64 (Last5Minutes (ActiveUsers (Data status)))),
         (phpMemoryLimitDesc, float64 (MemoryLimit (PHP (Server (Data status))))),
         (phpMaxUploadSizeDesc, float64 (UploadMaxFilesize (PHP (Server (Data status))))),
         (phpOpCacheHits, float64 (OpCacheStats.Hits (Stats (OpCache (PHP (Server (Data status))))))),
         (phpOpCacheMisses, float64 (OpCacheStats.Misses (Stats (OpCache (PHP (Server (Data status))))))),
         (phpOpCachedScripts, float64 (CachedScripts (Stats (OpCache (PHP (Server (Data status))))))),
         (phpOpCachedKeys, float64 (CachedKeys (Stats (OpCache (PHP (Server (Data status))))))),
         (phpAPCuHits, float64 (APCuCache.Hits (Cache (APCu (PHP (Server (Data status))))))),
         (phpAPCuMisses, float64 (APCuCache.Misses (Cache (APCu (PHP (Server (Data status))))))),
         (phpAPCuInserts, float64 (Inserts (Cache (APCu (PHP (Server (Data status))))))),
         (phpAPCuEntries, float64 (Entries (Cache (APCu (PHP (Server (Data status)))))))]
      in collectSimpleMetrics_loop ch metrics)"

fun collectMap_loop ::
  "Metric list \<Rightarrow> Desc \<Rightarrow> (string \<times> float64) list \<Rightarrow> Metric list \<times> error option" where
  "collectMap_loop ch d [] = (ch, None)"
| "collectMap_loop ch d ((k, v) # kvs) =
     (case NewConstMetric d GaugeValue v [k] of
        Inl e \<Rightarrow> (ch, Some (ErrorCreatingSharesMetric k e))
      | Inr metric \<Rightarrow> collectMap_loop (ch @ [metric]) d kvs)"

definition collectMap ::
  "nat list \<Rightarrow> Metric list \<Rightarrow> Desc \<Rightarrow> (string \<times> float64) list \<Rightarrow> Metric list \<times> error option" where
  "collectMap order ch d labelValueMap = collectMap_loop ch d (range_map order labelValueMap)"

text \<open>
  The difference for the label \<open>authlink\<close> is taken in the integer type of the two
  fields, before the conversion.
\<close>

definition collectShares ::
  "go_int \<Rightarrow> nat list \<Rightarrow> Metric list \<Rightarrow> Shares \<Rightarrow> Metric list \<times> error option" where
  "collectShares ty order ch shares =
     (let values0 = [];
          values1 = AList.update ''user'' (float64 (SharesUser shares)) values0;
          values2 = AList.update ''group'' (float64 (SharesGroups shares)) values1;
          values3 = AList.update ''authlink''
                      (float64 (go_sub ty (SharesLink shares) (SharesLinkNoPassword shares)))
                      values2;
          values4 = AList.update ''link'' (float64 (SharesLink shares)) values3
      in collectMap order ch sharesDesc values4)"

definition collectFederatedShares ::
  "nat list \<Rightarrow> Metric list \<Rightarrow> Shares \<Rightarrow> Metric list \<times> error option" where
  "collectFederatedShares order ch shares =
     (let values0 = [];
          values1 = AList.update ''sent'' (float64 (FedSent shares)) values0;
          values2 = AList.update ''received'' (float64 (FedReceived shares)) values1
      in collectMap order ch federationsDesc values2)"

definition collectInfoMetric ::
  "Metric list \<Rightarrow> Desc \<Rightarrow> string list \<Rightarrow> Metric list \<times> error option" where
  "collectInfoMetric ch d lvs =
     (case NewConstMetric d GaugeValue 1 lvs of
        Inl e \<Rightarrow> (ch, Some e)
      | Inr metric \<Rightarrow> (ch @ [metric], None))"

definition readMetrics :: "world \<Rightarrow> Metric list \<Rightarrow> ServerInfo \<Rightarrow> Metric list \<times> error option" where
  "readMetrics w ch status =
     (case collectSimpleMetrics ch status of
        (ch1, Some e) \<Rightarrow> (ch1, Some e)
      | (ch1, None) \<Rightarrow>
     (case collectShares (shares_int w) (shares_order w) ch1
             (Shares (Nextcloud (Data status))) of
        (ch2, Some e) \<Rightarrow> (ch2, Some e)
      | (ch2, None) \<Rightarrow>
     (case collectFederatedShares (federations_order w) ch2 (Shares (Nextcloud (Data status))) of
        (ch3, Some e) \<Rightarrow> (ch3, Some e)
      | (ch3, None) \<Rightarrow>
     (case NewConstMetric databaseSizeDesc GaugeValue
             (float64 (Size (Database (Server (Data status)))))
             [Database.Version (Database (Server (Data status))),
              Database.Type (Database (Server (Data status)))] of
        Inl e \<Rightarrow> (ch3, Some e)
      | Inr dbMetric \<Rightarrow>
     (let ch4 = ch3 @ [dbMetric];
          systemInfo = [System.Version (System (Nextcloud (Data status)))]
      in case collectInfoMetric ch4 systemInfoDesc systemInfo of
           (ch5, Some e) \<Rightarrow> (ch5, Some e)
         | (ch5, None) \<Rightarrow>
     (let phpInfo = [PHP.Version (PHP (Server (Data status)))]
      in case collectInfoMetric ch5 phpInfoDesc phpInfo of
           (ch6, Some e) \<Rightarrow> (ch6, Some e)
         | (ch6, None) \<Rightarrow> (ch6, None)))))))"

definition collectNextcloud ::
  "nextcloudCollector \<Rightarrow> world \<Rightarrow> Metric list \<Rightarrow> Metric list \<times> error option" where
  "collectNextcloud c w ch =
     (case fst (infoClient c w) of
        Inl e \<Rightarrow> (ch, Some e)
      | Inr status \<Rightarrow> readMetrics w ch status)"

text \<open>
  \<open>Collect\<close> has no result in the source; here it returns the channel's content and
  the collector as it has become, or \<open>None\<close> if \<open>WithLabelValues\<close> panics.
\<close>

definition nextcloudCollector_Collect ::
  "nextcloudCollector \<Rightarrow> world \<Rightarrow> Metric list \<Rightarrow> (Metric list \<times> nextcloudCollector) option" where
  "nextcloudCollector_Collect c w ch =
     (case collectNextcloud c w ch of
        (ch1, r) \<Rightarrow>
     (case (case r of
              Some e \<Rightarrow>
                (let c1 = c\<lparr>log_lines := log_lines c @ [e]\<rparr>;
                     cause0 = labelErrorCauseOther;
                     cause = (if e = ErrNotAuthorized then labelErrorCauseAuth else cause0)
                 in case WithLabelValues scrapeErrorsDesc (scrapeErrorsMetric c1) [cause] of
                      None \<Rightarrow> None
                    | Some cv \<Rightarrow>
                        (let c2 = c1\<lparr>scrapeErrorsMetric := Inc [cause] cv\<rparr>
                         in Some (c2\<lparr>upMetric := 0\<rparr>)))
            | None \<Rightarrow> Some (c\<lparr>upMetric := 1\<rparr>)) of
        None \<Rightarrow> None
      | Some c' \<Rightarrow>
          (let ch2 = Gauge_Collect upDesc (upMetric c') ch1;
               ch3 = CounterVec_Collect (children_order w) scrapeErrorsDesc
                       (scrapeErrorsMetric c') ch2
           in Some (ch3, c'))))"


definition counter_value :: "CounterVec \<Rightarrow> string list \<Rightarrow> float64" where
  "counter_value cv lvs = (case map_of cv lvs of None \<Rightarrow> 0 | Some v \<Rightarrow> v)"

section \<open>Example inputs\<close>

text \<open>
  A status document with the values of the specification's example, a parser that
  accepts one body only, and a world that answers every request with a given status code
  and body, and in which the share counters are signed integers of 64 bits.
\<close>

definition example_status :: ServerInfo where
  "example_status =
     \<lparr>Data = \<lparr>
        Nextcloud = \<lparr>
          System = \<lparr>System.Version = ''27.1.4'', FreeSpace = 10000000000,
                    Apps = \<lparr>Installed = 42, AvailableUpdates = 3\<rparr>\<rparr>,
          Storage = \<lparr>Users = 120, Files = 58930\<rparr>,
          Shares = \<lparr>SharesUser = 5, SharesGroups = 2, SharesLink = 10,
                    SharesLinkNoPassword = 3, FedSent = 1, FedReceived = 0\<rparr>\<rparr>,
        Server = \<lparr>
          PHP = \<lparr>PHP.Version = ''8.2.12'', MemoryLimit = 536870912,
                 UploadMaxFilesize = 1073741824,
                 OpCache = \<lparr>Stats = \<lparr>OpCacheStats.Hits = 900, OpCacheStats.Misses = 17,
                                      CachedScripts = 250, CachedKeys = 400\<rparr>\<rparr>,
                 APCu = \<lparr>Cache = \<lparr>APCuCache.Hits = 70, APCuCache.Misses = 8,
                                   Inserts = 12, Entries = 11\<rparr>\<rparr>\<rparr>,
          Database = \<lparr>Type = ''mysql'', Database.Version = ''10.11.6'', Size = 7340032\<rparr>\<rparr>,
        ActiveUsers = \<lparr>Last5Minutes = 4\<rparr>\<rparr>\<rparr>"

definition example_parse :: "string \<Rightarrow> string + ServerInfo" where
  "example_parse body = (if body = ''ok'' then Inr example_status else Inl ''unexpected end of JSON input'')"

definition example_world :: "int \<Rightarrow> string \<Rightarrow> world" where
  "example_world code body =
     \<lparr>url_error = (\<lambda>url. None),
      Do = (\<lambda>client req. Inr \<lparr>StatusCode = code, Body = body\<rparr>),
      ParseJSON = example_parse,
      shares_int = Signed 64,
      shares_order = [2, 0, 1], federations_order = [1], children_order = [1]\<rparr>"

text \<open>
  A collector on the fetcher, as \<open>RegisterCollector\<close> makes it, and one whose info
  client is a stub that returns a document with a database version that is not valid
  UTF-8 (the single byte \<open>0xFF\<close>).
\<close>

definition example_collector :: nextcloudCollector where
  "example_collector =
     RegisterCollector
       (New ''https://cloud.example/info'' ''admin'' ''secret'' [] 5 ''nc-exporter'' False)"

definition bad_status :: ServerInfo where
  "bad_status =
     example_status\<lparr>Data := (Data example_status)\<lparr>Server := (Server (Data example_status))
       \<lparr>Database := \<lparr>Type = ''mysql'', Database.Version = [CHR 0xFF], Size = 7340032\<rparr>\<rparr>\<rparr>\<rparr>"

definition stub_collector :: nextcloudCollector where
  "stub_collector = RegisterCollector (\<lambda>w. (Inr bad_status, []))"


text \<open>The constant gauge metric that \<open>NewConstMetric\<close> builds.\<close>

abbreviation gauge :: "Desc \<Rightarrow> float64 \<Rightarrow> string list \<Rightarrow> Metric" where
  "gauge d v lvs \<equiv> \<lparr>desc = d, valType = GaugeValue, val = v, labelValues = lvs\<rparr>"

section \<open>The fetcher: requests and the classification of responses\<close>

text \<open>
  A request that the closure has sent determines the closure's configuration at that
  point: the URL was accepted, and the request is the one built from the credentials.
\<close>

lemma New_sent:
  assumes "EvDo req \<in> set (snd (New infoURL username password authToken timeout userAgent tlsSkipVerify w))"
  shows "url_error w infoURL = None"
    and "req = Header_Set ''User-Agent'' userAgent
         (if authToken = '''' then SetBasicAuth username password \<lparr>Method = ''GET'', URL = infoURL, Header = []\<rparr>
          else Header_Set ''NC-Token'' authToken \<lparr>Method = ''GET'', URL = infoURL, Header = []\<rparr>)"
  using assms
  by (auto simp: New_def NewRequest_def Let_def split: option.splits sum.splits if_splits)

lemma New_answered:
  assumes "EvDo req \<in> set (snd (New infoURL username password authToken timeout userAgent tlsSkipVerify w))"
      and "Do w \<lparr>Timeout = timeout, InsecureSkipVerify = tlsSkipVerify\<rparr> req = Inr res"
  shows "New infoURL username password authToken timeout userAgent tlsSkipVerify w =
     (if StatusCode res = 401 then (Inl ErrNotAuthorized, [EvDo req, EvBodyClose])
      else if StatusCode res = 429 then (Inl ErrRatelimit, [EvDo req, EvBodyClose])
      else if StatusCode res \<noteq> 200 then
        (Inl (UnexpectedStatusCode (StatusCode res)), [EvDo req, EvBodyClose])
      else (case ParseJSON w (Body res) of
              Inl msg \<Rightarrow> (Inl (CanNotParseServerInfo (External msg)),
                           [EvDo req, EvParseJSON (Body res), EvBodyClose])
            | Inr status \<Rightarrow> (Inr status, [EvDo req, EvParseJSON (Body res), EvBodyClose])))"
proof -
  note u = New_sent(1)[OF assms(1)] and r = New_sent(2)[OF assms(1)]
  show ?thesis
    using assms(2) unfolding r New_def NewRequest_def Let_def
    by (auto simp: u split: sum.splits)
qed

text \<open>
  Claim C3. Whatever response the fetch receives for the request it sent: status 401
  gives \<open>ErrNotAuthorized\<close>, 429 gives \<open>ErrRatelimit\<close>, every other status but
  200 gives the status-code error carrying that status, and with status 200 the body is
  parsed, a parse failure giving the parser's error wrapped as
  \<open>CanNotParseServerInfo\<close>. The parser is called exactly when the status is 200, and
  the error kinds are pairwise different values.
\<close>

theorem fetch_classifies_response:
  assumes "EvDo req \<in> set (snd (New infoURL username password authToken timeout userAgent tlsSkipVerify w))"
      and "Do w \<lparr>Timeout = timeout, InsecureSkipVerify = tlsSkipVerify\<rparr> req = Inr res"
  shows "(StatusCode res = 401 \<longrightarrow>
            fst (New infoURL username password authToken timeout userAgent tlsSkipVerify w)
              = Inl ErrNotAuthorized)
       \<and> (StatusCode res = 429 \<longrightarrow>
            fst (New infoURL username password authToken timeout userAgent tlsSkipVerify w)
              = Inl ErrRatelimit)
       \<and> (StatusCode res \<notin> {200, 401, 429} \<longrightarrow>
            fst (New infoURL username password authToken timeout userAgent tlsSkipVerify w)
              = Inl (UnexpectedStatusCode (StatusCode res)))
       \<and> (StatusCode res = 200 \<longrightarrow>
            fst (New infoURL username password authToken timeout userAgent tlsSkipVerify w)
              = (case ParseJSON w (Body res) of
                   Inl msg \<Rightarrow> Inl (CanNotParseServerInfo (External msg))
                 | Inr status \<Rightarrow> Inr status))
       \<and> ((\<exists>b. EvParseJSON b \<in> set (snd (New infoURL username password authToken timeout userAgent tlsSkipVerify w)))
            = (StatusCode res = 200))
       \<and> CanNotParseServerInfo e \<notin>
            {ErrNotAuthorized, ErrRatelimit, UnexpectedStatusCode n, External m}
       \<and> ErrNotAuthorized \<notin> {ErrRatelimit, UnexpectedStatusCode n, External m}
       \<and> ErrRatelimit \<notin> {UnexpectedStatusCode n, External m}"
  unfolding New_answered[OF assms]
  by (auto split: sum.splits)

text \<open>
  The classification at work on the example world: 401, 429, 503, and 200 with a body the
  parser rejects and with one it accepts.
\<close>

theorem fetch_classifies_response_witness:
  "fst (New ''https://cloud.example/info'' ''admin'' ''secret'' '''' 5 ''nc-exporter'' False (example_world 401 ''denied'')) = Inl ErrNotAuthorized
 \<and> fst (New ''https://cloud.example/info'' ''admin'' ''secret'' '''' 5 ''nc-exporter'' False (example_world 429 ''slow down'')) = Inl ErrRatelimit
 \<and> fst (New ''https://cloud.example/info'' ''admin'' ''secret'' '''' 5 ''nc-exporter'' False (example_world 503 ''ok'')) = Inl (UnexpectedStatusCode 503)
 \<and> fst (New ''https://cloud.example/info'' ''admin'' ''secret'' '''' 5 ''nc-exporter'' False (example_world 200 ''{'')) = Inl (CanNotParseServerInfo (External ''unexpected end of JSON input''))
 \<and> fst (New ''https://cloud.example/info'' ''admin'' ''secret'' '''' 5 ''nc-exporter'' False (example_world 200 ''ok'')) = Inr example_status"
proof -
  let ?req = "\<lparr>Method = ''GET'', URL = ''https://cloud.example/info'',
     Header = [(''Authorization'', ''Basic YWRtaW46c2VjcmV0''), (''User-Agent'', ''nc-exporter'')]\<rparr>"
  have sent: "EvDo ?req \<in> set (snd (New ''https://cloud.example/info'' ''admin'' ''secret'' '''' 5 ''nc-exporter'' False (example_world code body)))"
    for code body
    by (simp add: New_def NewRequest_def example_world_def Header_Set_def SetBasicAuth_def
        basicAuth_def encodeStd_def Let_def split: sum.splits)
  have ans: "Do (example_world code body) \<lparr>Timeout = 5, InsecureSkipVerify = False\<rparr> ?req
      = Inr \<lparr>StatusCode = code, Body = body\<rparr>" for code body
    by (simp add: example_world_def)
  show ?thesis
    using fetch_classifies_response[OF sent ans, of 401 "''denied''"]
      fetch_classifies_response[OF sent ans, of 429 "''slow down''"]
      fetch_classifies_response[OF sent ans, of 503 "''ok''"]
      fetch_classifies_response[OF sent ans, of 200 "''{''"]
      fetch_classifies_response[OF sent ans, of 200 "''ok''"]
    by (simp add: example_world_def example_parse_def)
qed


text \<open>
  Claim C4. Every request that the closure sends carries the configured user agent and
  exactly one of the two authentication headers: \<open>NC-Token\<close> with the token when the
  token is not empty, whatever user name and password are, and otherwise
  \<open>Authorization\<close> with the basic credentials. The request has these two headers and
  no other, so the two mechanisms never occur together.
\<close>

theorem request_carries_one_auth_mechanism:
  assumes "EvDo req \<in> set (snd (New infoURL username password authToken timeout userAgent tlsSkipVerify w))"
  shows "map_of (Header req) ''User-Agent'' = Some userAgent
       \<and> (authToken \<noteq> [] \<longrightarrow>
            map_of (Header req) ''NC-Token'' = Some authToken
          \<and> map_of (Header req) ''Authorization'' = None)
       \<and> (authToken = [] \<longrightarrow>
            map_of (Header req) ''Authorization'' = Some (''Basic '' @ basicAuth username password)
          \<and> map_of (Header req) ''NC-Token'' = None)
       \<and> map fst (Header req) =
            [if authToken = [] then ''Authorization'' else ''NC-Token'', ''User-Agent'']"
  unfolding New_sent(2)[OF assms]
  by (simp add: Header_Set_def SetBasicAuth_def)

text \<open>
  With token, user name and password all set, the request sent has the token header and
  the user agent only.
\<close>

theorem request_carries_one_auth_mechanism_witness:
  "map_of [(''NC-Token'', ''s3cr3t''), (''User-Agent'', ''nc-exporter'')] ''User-Agent'' = Some ''nc-exporter''
 \<and> map_of [(''NC-Token'', ''s3cr3t''), (''User-Agent'', ''nc-exporter'')] ''NC-Token'' = Some ''s3cr3t''
 \<and> map_of [(''NC-Token'', ''s3cr3t''), (''User-Agent'', ''nc-exporter'')] ''Authorization'' = None
 \<and> EvDo \<lparr>Method = ''GET'', URL = ''https://cloud.example/info'',
           Header = [(''NC-Token'', ''s3cr3t''), (''User-Agent'', ''nc-exporter'')]\<rparr>
      \<in> set (snd (New ''https://cloud.example/info'' ''admin'' ''secret'' ''s3cr3t'' 5
                     ''nc-exporter'' False (example_world 200 ''ok'')))"
proof -
  let ?req = "\<lparr>Method = ''GET'', URL = ''https://cloud.example/info'',
     Header = [(''NC-Token'', ''s3cr3t''), (''User-Agent'', ''nc-exporter'')]\<rparr>"
  have sent: "EvDo ?req \<in> set (snd (New ''https://cloud.example/info'' ''admin'' ''secret''
      ''s3cr3t'' 5 ''nc-exporter'' False (example_world 200 ''ok'')))"
    by (simp add: New_def NewRequest_def example_world_def Header_Set_def Let_def
        example_parse_def)
  show ?thesis
    using request_carries_one_auth_mechanism[OF sent] sent by simp
qed

text \<open>
  Claim C9. When the response's status is not 200 the parser is not called; the result
  is the error that belongs to the status code alone and never a parse error; and the
  whole outcome stays the same when the body of the response and the parser are
  replaced by any others.
\<close>

theorem non200_response_is_never_parsed:
  assumes "EvDo req \<in> set (snd (New infoURL username password authToken timeout userAgent tlsSkipVerify w))"
      and "Do w \<lparr>Timeout = timeout, InsecureSkipVerify = tlsSkipVerify\<rparr> req = Inr res"
      and "StatusCode res \<noteq> 200"
  shows "(\<forall>b. EvParseJSON b \<notin> set (snd (New infoURL username password authToken timeout userAgent tlsSkipVerify w)))
       \<and> fst (New infoURL username password authToken timeout userAgent tlsSkipVerify w)
           = Inl (if StatusCode res = 401 then ErrNotAuthorized
                  else if StatusCode res = 429 then ErrRatelimit
                  else UnexpectedStatusCode (StatusCode res))
       \<and> (\<forall>e. fst (New infoURL username password authToken timeout userAgent tlsSkipVerify w)
              \<noteq> Inl (CanNotParseServerInfo e))
       \<and> New infoURL username password authToken timeout userAgent tlsSkipVerify
            (w\<lparr>ParseJSON := parser,
               Do := (\<lambda>client r. if client = \<lparr>Timeout = timeout, InsecureSkipVerify = tlsSkipVerify\<rparr> \<and> r = req
                                  then Inr (res\<lparr>Body := body\<rparr>) else Do w client r)\<rparr>)
           = New infoURL username password authToken timeout userAgent tlsSkipVerify w"
proof -
  let ?w' = "w\<lparr>ParseJSON := parser,
               Do := (\<lambda>client r. if client = \<lparr>Timeout = timeout, InsecureSkipVerify = tlsSkipVerify\<rparr> \<and> r = req
                                  then Inr (res\<lparr>Body := body\<rparr>) else Do w client r)\<rparr>"
  note a = New_answered[OF assms(1,2)]
  have sent': "EvDo req \<in> set (snd (New infoURL username password authToken timeout userAgent tlsSkipVerify ?w'))"
    using New_sent[OF assms(1)]
    by (auto simp: New_def NewRequest_def Let_def split: sum.splits)
  have ans': "Do ?w' \<lparr>Timeout = timeout, InsecureSkipVerify = tlsSkipVerify\<rparr> req = Inr (res\<lparr>Body := body\<rparr>)"
    by simp
  note b = New_answered[OF sent' ans']
  show ?thesis
    unfolding b unfolding a using assms(3) by simp
qed

text \<open>
  A 401 response whose body the parser would accept is classified by its status.
\<close>

theorem non200_response_is_never_parsed_witness:
  "EvParseJSON ''ok'' \<notin> set (snd (New ''https://cloud.example/info'' ''admin'' ''secret'' [] 5
       ''nc-exporter'' False (example_world 401 ''ok'')))
 \<and> fst (New ''https://cloud.example/info'' ''admin'' ''secret'' [] 5
       ''nc-exporter'' False (example_world 401 ''ok'')) = Inl ErrNotAuthorized
 \<and> fst (New ''https://cloud.example/info'' ''admin'' ''secret'' [] 5
       ''nc-exporter'' False (example_world 401 ''ok'')) \<noteq>
      Inl (CanNotParseServerInfo (External ''unexpected end of JSON input''))"
proof -
  let ?req = "\<lparr>Method = ''GET'', URL = ''https://cloud.example/info'',
     Header = [(''Authorization'', ''Basic YWRtaW46c2VjcmV0''), (''User-Agent'', ''nc-exporter'')]\<rparr>"
  have sent: "EvDo ?req \<in> set (snd (New ''https://cloud.example/info'' ''admin'' ''secret'' [] 5
      ''nc-exporter'' False (example_world 401 ''ok'')))"
    by (simp add: New_def NewRequest_def example_world_def Header_Set_def SetBasicAuth_def
        basicAuth_def encodeStd_def Let_def split: sum.splits)
  have ans: "Do (example_world 401 ''ok'') \<lparr>Timeout = 5, InsecureSkipVerify = False\<rparr> ?req
      = Inr \<lparr>StatusCode = 401, Body = ''ok''\<rparr>"
    by (simp add: example_world_def)
  have ne: "StatusCode \<lparr>StatusCode = 401, Body = ''ok''\<rparr> \<noteq> 200" by simp
  show ?thesis
    using non200_response_is_never_parsed[OF sent ans ne] by simp
qed

text \<open>
  Claim C10. With an empty token every request sent carries the basic-auth
  \<open>Authorization\<close> header, built from the user name and password as they are (also
  when both are empty); under every configuration a request carries at least one of the
  two authentication headers.
\<close>

theorem request_always_authenticated:
  assumes "EvDo req \<in> set (snd (New infoURL username password authToken timeout userAgent tlsSkipVerify w))"
  shows "(authToken = [] \<longrightarrow>
            map_of (Header req) ''Authorization''
              = Some (''Basic '' @ basicAuth username password))
       \<and> (map_of (Header req) ''Authorization'' \<noteq> None
          \<or> map_of (Header req) ''NC-Token'' \<noteq> None)"
  unfolding New_sent(2)[OF assms]
  by (simp add: Header_Set_def SetBasicAuth_def)

text \<open>
  Empty token, user name and password: the request carries \<open>Authorization: Basic Og==\<close>,
  the encoding of the lone colon.
\<close>

theorem request_always_authenticated_witness:
  "map_of [(''Authorization'', ''Basic Og==''), (''User-Agent'', ''nc-exporter'')] ''Authorization''
     = Some (''Basic '' @ basicAuth [] [])
 \<and> basicAuth [] [] = ''Og==''
 \<and> EvDo \<lparr>Method = ''GET'', URL = ''https://cloud.example/info'',
           Header = [(''Authorization'', ''Basic Og==''), (''User-Agent'', ''nc-exporter'')]\<rparr>
      \<in> set (snd (New ''https://cloud.example/info'' [] [] [] 5
                     ''nc-exporter'' False (example_world 200 ''ok'')))"
proof -
  let ?req = "\<lparr>Method = ''GET'', URL = ''https://cloud.example/info'',
     Header = [(''Authorization'', ''Basic Og==''), (''User-Agent'', ''nc-exporter'')]\<rparr>"
  have sent: "EvDo ?req \<in> set (snd (New ''https://cloud.example/info'' [] [] [] 5
      ''nc-exporter'' False (example_world 200 ''ok'')))"
    by (simp add: New_def NewRequest_def example_world_def Header_Set_def SetBasicAuth_def
        basicAuth_def encodeStd_def Let_def example_parse_def)
  have b: "basicAuth [] [] = ''Og==''"
    by (simp add: basicAuth_def encodeStd_def)
  show ?thesis
    using request_always_authenticated[OF sent] sent b by simp
qed

section \<open>Integers and their conversion\<close>

text \<open>
  The length in binary bounds a number from both sides; a conversion to \<open>float64\<close>
  is exact up to 53 bits and keeps the sign of every integer.
\<close>

lemma nbits_le: "n < 2 ^ k \<Longrightarrow> nbits n \<le> k"
proof (induction n arbitrary: k rule: nbits.induct)
  case (1 n)
  show ?case
  proof (cases "n = 0")
    case True
    then show ?thesis by (simp add: nbits.simps)
  next
    case False
    with 1(2) obtain j where k: "k = Suc j" by (cases k) auto
    with 1(2) have "n div 2 < 2 ^ j" by simp
    with 1(1)[OF False] have "nbits (n div 2) \<le> j" by simp
    with False k show ?thesis by (subst nbits.simps) simp
  qed
qed


lemma nbits_numeral [simp]:
  "nbits 0 = 0"
  "nbits (Suc 0) = 1"
  "nbits 1 = 1"
  "nbits (numeral Num.One) = 1"
  "nbits (numeral (Num.Bit0 k)) = Suc (nbits (numeral k))"
  "nbits (numeral (Num.Bit1 k)) = Suc (nbits (numeral k))"
proof -
  show "nbits 0 = 0" by (simp add: nbits.simps)
  show 1: "nbits (Suc 0) = 1" by (simp add: nbits.simps)
  then show "nbits 1 = 1" "nbits (numeral Num.One) = 1" by simp_all
  show "nbits (numeral (Num.Bit0 k)) = Suc (nbits (numeral k))"
    by (subst nbits.simps) simp
  show "nbits (numeral (Num.Bit1 k)) = Suc (nbits (numeral k))"
    by (subst nbits.simps) simp
qed

lemma float64_exact: "\<bar>x\<bar> < 2 ^ 53 \<Longrightarrow> float64 x = of_int x"
proof -
  assume a: "\<bar>x\<bar> < 2 ^ 53"
  then have "nat \<bar>x\<bar> < 2 ^ 53" by (simp add: nat_less_iff)
  then have e: "nbits (nat \<bar>x\<bar>) - 53 = 0" using nbits_le[of "nat \<bar>x\<bar>" 53] by simp
  have "sgn x * int (nat \<bar>x\<bar>) = x" by (simp add: mult_sgn_abs)
  then show ?thesis
    unfolding float64_def Let_def e by simp
qed








section \<open>The library model: iteration order and descriptors\<close>

text \<open>Ranging over a map visits every entry exactly once, whatever the order.\<close>

lemma mset_range_map: "mset (range_map cs xs) = mset xs"
proof (induction cs xs rule: range_map.induct)
  case (3 c cs x xs)
  let ?l = "x # xs"
  let ?i = "c mod length ?l"
  have i: "?i < length ?l" by simp
  have "mset ?l = mset (take ?i ?l @ ?l ! ?i # drop (Suc ?i) ?l)"
    using id_take_nth_drop[OF i] by simp
  then show ?case using 3 by (simp add: Let_def)
qed simp_all

lemma set_range_map: "set (range_map cs xs) = set xs"
  by (metis mset_range_map set_mset_mset)

lemma length_range_map: "length (range_map cs xs) = length xs"
  by (metis mset_range_map size_mset)

text \<open>
  Every descriptor of the collector is well formed: \<open>NewDesc\<close> records no error for
  it. Their names are pairwise different, and so are the descriptors.
\<close>

lemma NewDesc_fields:
  "fqName (NewDesc name hlp labels) = name"
  "helpText (NewDesc name hlp labels) = hlp"
  "variableLabels (NewDesc name hlp labels) = labels"
  by (simp_all add: NewDesc_def Let_def)

lemma desc_err [simp]:
  "err systemInfoDesc = None"
  "err appsInstalledDesc = None"
  "err appsUpdatesDesc = None"
  "err usersDesc = None"
  "err filesDesc = None"
  "err freeSpaceDesc = None"
  "err sharesDesc = None"
  "err federationsDesc = None"
  "err activeUsersDesc = None"
  "err phpInfoDesc = None"
  "err phpMemoryLimitDesc = None"
  "err phpMaxUploadSizeDesc = None"
  "err phpOpCacheHits = None"
  "err phpOpCacheMisses = None"
  "err phpOpCachedScripts = None"
  "err phpOpCachedKeys = None"
  "err phpAPCuHits = None"
  "err phpAPCuMisses = None"
  "err phpAPCuInserts = None"
  "err phpAPCuEntries = None"
  "err databaseSizeDesc = None"
  "err upDesc = None"
  "err scrapeErrorsDesc = None"
  by (simp_all add: Let_def 
      systemInfoDesc_def
      appsInstalledDesc_def
      appsUpdatesDesc_def
      usersDesc_def
      filesDesc_def
      freeSpaceDesc_def
      sharesDesc_def
      federationsDesc_def
      activeUsersDesc_def
      phpInfoDesc_def
      phpMemoryLimitDesc_def
      phpMaxUploadSizeDesc_def
      phpOpCacheHits_def
      phpOpCacheMisses_def
      phpOpCachedScripts_def
      phpOpCachedKeys_def
      phpAPCuHits_def
      phpAPCuMisses_def
      phpAPCuInserts_def
      phpAPCuEntries_def
      databaseSizeDesc_def
      upDesc_def
      scrapeErrorsDesc_def NewDesc_def IsValidMetricName_def
      checkLabelName_def isValidLegacyRune_def metricPrefix_def)

lemma desc_variableLabels [simp]:
  "variableLabels systemInfoDesc = [''version'']"
  "variableLabels appsInstalledDesc = []"
  "variableLabels appsUpdatesDesc = []"
  "variableLabels usersDesc = []"
  "variableLabels filesDesc = []"
  "variableLabels freeSpaceDesc = []"
  "variableLabels sharesDesc = [''type'']"
  "variableLabels federationsDesc = [''direction'']"
  "variableLabels activeUsersDesc = []"
  "variableLabels phpInfoDesc = [''version'']"
  "variableLabels phpMemoryLimitDesc = []"
  "variableLabels phpMaxUploadSizeDesc = []"
  "variableLabels phpOpCacheHits = []"
  "variableLabels phpOpCacheMisses = []"
  "variableLabels phpOpCachedScripts = []"
  "variableLabels phpOpCachedKeys = []"
  "variableLabels phpAPCuHits = []"
  "variableLabels phpAPCuMisses = []"
  "variableLabels phpAPCuInserts = []"
  "variableLabels phpAPCuEntries = []"
  "variableLabels databaseSizeDesc = [''version'', ''type'']"
  "variableLabels upDesc = []"
  "variableLabels scrapeErrorsDesc = [''cause'']"
  by (simp_all add: 
      systemInfoDesc_def
      appsInstalledDesc_def
      appsUpdatesDesc_def
      usersDesc_def
      filesDesc_def
      freeSpaceDesc_def
      sharesDesc_def
      federationsDesc_def
      activeUsersDesc_def
      phpInfoDesc_def
      phpMemoryLimitDesc_def
      phpMaxUploadSizeDesc_def
      phpOpCacheHits_def
      phpOpCacheMisses_def
      phpOpCachedScripts_def
      phpOpCachedKeys_def
      phpAPCuHits_def
      phpAPCuMisses_def
      phpAPCuInserts_def
      phpAPCuEntries_def
      databaseSizeDesc_def
      upDesc_def
      scrapeErrorsDesc_def NewDesc_fields)

lemma desc_fqName [simp]:
  "fqName systemInfoDesc = ''nextcloud_system_info''"
  "fqName appsInstalledDesc = ''nextcloud_apps_installed_total''"
  "fqName appsUpdatesDesc = ''nextcloud_apps_updates_available_total''"
  "fqName usersDesc = ''nextcloud_users_total''"
  "fqName filesDesc = ''nextcloud_files_total''"
  "fqName freeSpaceDesc = ''nextcloud_free_space_bytes''"
  "fqName sharesDesc = ''nextcloud_shares_total''"
  "fqName federationsDesc = ''nextcloud_shares_federated_total''"
  "fqName activeUsersDesc = ''nextcloud_active_users_total''"
  "fqName phpInfoDesc = ''nextcloud_php_info''"
  "fqName phpMemoryLimitDesc = ''nextcloud_php_memory_limit_bytes''"
  "fqName phpMaxUploadSizeDesc = ''nextcloud_php_upload_max_size_bytes''"
  "fqName phpOpCacheHits = ''nextcloud_php_opcache_hits_total''"
  "fqName phpOpCacheMisses = ''nextcloud_php_opcache_misses_total''"
  "fqName phpOpCachedScripts = ''nextcloud_php_opcache_scripts_total''"
  "fqName phpOpCachedKeys = ''nextcloud_php_opcache_keys_total''"
  "fqName phpAPCuHits = ''nextcloud_php_apcu_hits_total''"
  "fqName phpAPCuMisses = ''nextcloud_php_apcu_misses_total''"
  "fqName phpAPCuInserts = ''nextcloud_php_apcu_inserts_total''"
  "fqName phpAPCuEntries = ''nextcloud_php_apcu_keys_total''"
  "fqName databaseSizeDesc = ''nextcloud_database_size_bytes''"
  "fqName upDesc = ''nextcloud_up''"
  "fqName scrapeErrorsDesc = ''nextcloud_scrape_errors_total''"
  by (simp_all add: 
      systemInfoDesc_def
      appsInstalledDesc_def
      appsUpdatesDesc_def
      usersDesc_def
      filesDesc_def
      freeSpaceDesc_def
      sharesDesc_def
      federationsDesc_def
      activeUsersDesc_def
      phpInfoDesc_def
      phpMemoryLimitDesc_def
      phpMaxUploadSizeDesc_def
      phpOpCacheHits_def
      phpOpCacheMisses_def
      phpOpCachedScripts_def
      phpOpCachedKeys_def
      phpAPCuHits_def
      phpAPCuMisses_def
      phpAPCuInserts_def
      phpAPCuEntries_def
      databaseSizeDesc_def
      upDesc_def
      scrapeErrorsDesc_def NewDesc_fields metricPrefix_def)

lemma descs_distinct:
  "distinct
    [systemInfoDesc,
     appsInstalledDesc,
     appsUpdatesDesc,
     usersDesc,
     filesDesc,
     freeSpaceDesc,
     sharesDesc,
     federationsDesc,
     activeUsersDesc,
     phpInfoDesc,
     phpMemoryLimitDesc,
     phpMaxUploadSizeDesc,
     phpOpCacheHits,
     phpOpCacheMisses,
     phpOpCachedScripts,
     phpOpCachedKeys,
     phpAPCuHits,
     phpAPCuMisses,
     phpAPCuInserts,
     phpAPCuEntries,
     databaseSizeDesc,
     upDesc,
     scrapeErrorsDesc]"
proof -
  have "distinct (map fqName
    [systemInfoDesc,
     appsInstalledDesc,
     appsUpdatesDesc,
     usersDesc,
     filesDesc,
     freeSpaceDesc,
     sharesDesc,
     federationsDesc,
     activeUsersDesc,
     phpInfoDesc,
     phpMemoryLimitDesc,
     phpMaxUploadSizeDesc,
     phpOpCacheHits,
     phpOpCacheMisses,
     phpOpCachedScripts,
     phpOpCachedKeys,
     phpAPCuHits,
     phpAPCuMisses,
     phpAPCuInserts,
     phpAPCuEntries,
     databaseSizeDesc,
     upDesc,
     scrapeErrorsDesc])"
    by simp
  then show ?thesis by (simp only: distinct_map)
qed

lemmas desc_neq = descs_distinct[simplified]

section \<open>The mapping steps\<close>

text \<open>
  A constant metric is built whenever the descriptor is sound, the number of label
  values fits and every label value is valid UTF-8. The scalar metrics have no labels
  and the keys of the two maps are plain words, so these three steps never fail and
  always send all of their metrics.
\<close>

lemma NewConstMetric_ok:
  "err d = None \<Longrightarrow> length lvs = length (variableLabels d) \<Longrightarrow> list_all ValidString lvs \<Longrightarrow>
   NewConstMetric d vt v lvs = Inr \<lparr>desc = d, valType = vt, val = v, labelValues = lvs\<rparr>"
  by (auto simp: NewConstMetric_def validateLabelValues_def list_all_iff find_None_iff
      split: option.splits)

lemma NewConstMetric_invalid:
  "err d = None \<Longrightarrow> length lvs = length (variableLabels d) \<Longrightarrow> find (\<lambda>v. \<not> ValidString v) lvs = Some x \<Longrightarrow>
   NewConstMetric d vt v lvs = Inl (InvalidLabelValue x)"
  by (simp add: NewConstMetric_def validateLabelValues_def)

lemma collectSimpleMetrics_loop_ok:
  "list_all (\<lambda>m. err (fst m) = None \<and> variableLabels (fst m) = []) ms \<Longrightarrow>
   collectSimpleMetrics_loop ch ms = (ch @ map (\<lambda>m. gauge (fst m) (snd m) []) ms, None)"
  by (induction ms arbitrary: ch) (simp_all add: NewConstMetric_ok)

lemma collectMap_loop_ok:
  "err d = None \<Longrightarrow> length (variableLabels d) = 1 \<Longrightarrow> list_all (\<lambda>kv. ValidString (fst kv)) kvs \<Longrightarrow>
   collectMap_loop ch d kvs = (ch @ map (\<lambda>(k, v). gauge d v [k]) kvs, None)"
  by (induction kvs arbitrary: ch) (auto simp: NewConstMetric_ok)

lemma collectMap_ok:
  "err d = None \<Longrightarrow> length (variableLabels d) = 1 \<Longrightarrow> list_all (\<lambda>kv. ValidString (fst kv)) kvs \<Longrightarrow>
   collectMap order ch d kvs = (ch @ map (\<lambda>(k, v). gauge d v [k]) (range_map order kvs), None)"
  unfolding collectMap_def
  by (rule collectMap_loop_ok) (simp_all add: list_all_iff set_range_map)

lemma collectSimpleMetrics_eq:
  "collectSimpleMetrics ch status =
    (ch @
     [gauge appsInstalledDesc (float64 (Installed (System.Apps (System (Nextcloud (Data status)))))) [],
      gauge appsUpdatesDesc (float64 (AvailableUpdates (System.Apps (System (Nextcloud (Data status)))))) [],
      gauge usersDesc (float64 (Users (Storage (Nextcloud (Data status))))) [],
      gauge filesDesc (float64 (Files (Storage (Nextcloud (Data status))))) [],
      gauge freeSpaceDesc (float64 (FreeSpace (System (Nextcloud (Data status))))) [],
      gauge activeUsersDesc (float64 (Last5Minutes (ActiveUsers (Data status)))) [],
      gauge phpMemoryLimitDesc (float64 (MemoryLimit (PHP (Server (Data status))))) [],
      gauge phpMaxUploadSizeDesc (float64 (UploadMaxFilesize (PHP (Server (Data status))))) [],
      gauge phpOpCacheHits (float64 (OpCacheStats.Hits (Stats (OpCache (PHP (Server (Data status))))))) [],
      gauge phpOpCacheMisses (float64 (OpCacheStats.Misses (Stats (OpCache (PHP (Server (Data status))))))) [],
      gauge phpOpCachedScripts (float64 (CachedScripts (Stats (OpCache (PHP (Server (Data status))))))) [],
      gauge phpOpCachedKeys (float64 (CachedKeys (Stats (OpCache (PHP (Server (Data status))))))) [],
      gauge phpAPCuHits (float64 (APCuCache.Hits (Cache (APCu (PHP (Server (Data status))))))) [],
      gauge phpAPCuMisses (float64 (APCuCache.Misses (Cache (APCu (PHP (Server (Data status))))))) [],
      gauge phpAPCuInserts (float64 (Inserts (Cache (APCu (PHP (Server (Data status))))))) [],
      gauge phpAPCuEntries (float64 (Entries (Cache (APCu (PHP (Server (Data status))))))) []],
     None)"
  unfolding collectSimpleMetrics_def Let_def
  by (subst collectSimpleMetrics_loop_ok) simp_all

lemma collectShares_eq:
  "collectShares ty order ch shares =
    (ch @ map (\<lambda>(k, v). gauge sharesDesc v [k])
       (range_map order
         [(''user'', float64 (SharesUser shares)),
          (''group'', float64 (SharesGroups shares)),
          (''authlink'', float64 (go_sub ty (SharesLink shares) (SharesLinkNoPassword shares))),
          (''link'', float64 (SharesLink shares))]),
     None)"
  unfolding collectShares_def Let_def
  by (subst collectMap_ok) (simp_all add: ValidString_def)

lemma collectFederatedShares_eq:
  "collectFederatedShares order ch shares =
    (ch @ map (\<lambda>(k, v). gauge federationsDesc v [k])
       (range_map order
         [(''sent'', float64 (FedSent shares)),
          (''received'', float64 (FedReceived shares))]),
     None)"
  unfolding collectFederatedShares_def Let_def
  by (subst collectMap_ok) (simp_all add: ValidString_def)

text \<open>
  The whole mapping: the three steps that cannot fail, then the database metric and the
  two info metrics, each of which fails exactly when one of its label values is not
  valid UTF-8, leaving on the channel what was sent before.
\<close>

lemma readMetrics_eq:
  "readMetrics w ch status =
    (let sh = Shares (Nextcloud (Data status));
         db = Database (Server (Data status));
         sysv = System.Version (System (Nextcloud (Data status)));
         phpv = PHP.Version (PHP (Server (Data status)));
         ch3 = fst (collectFederatedShares (federations_order w)
                 (fst (collectShares (shares_int w) (shares_order w)
                    (fst (collectSimpleMetrics ch status)) sh)) sh);
         dbMetric = gauge databaseSizeDesc (float64 (Size db)) [Database.Version db, Database.Type db]
     in if \<not> ValidString (Database.Version db)
          then (ch3, Some (InvalidLabelValue (Database.Version db)))
        else if \<not> ValidString (Database.Type db)
          then (ch3, Some (InvalidLabelValue (Database.Type db)))
        else if \<not> ValidString sysv
          then (ch3 @ [dbMetric], Some (InvalidLabelValue sysv))
        else if \<not> ValidString phpv
          then (ch3 @ [dbMetric, gauge systemInfoDesc 1 [sysv]], Some (InvalidLabelValue phpv))
        else (ch3 @ [dbMetric, gauge systemInfoDesc 1 [sysv], gauge phpInfoDesc 1 [phpv]], None))"
  unfolding readMetrics_def Let_def
  by (simp add: collectSimpleMetrics_eq collectShares_eq collectFederatedShares_eq
      collectInfoMetric_def NewConstMetric_def validateLabelValues_def)

section \<open>The collector\<close>

text \<open>
  The two cause labels fit the counter vector, so \<open>WithLabelValues\<close> does not panic,
  and \<open>Collect\<close> comes down to the update of the health state followed by the two
  health collections.
\<close>

lemma WithLabelValues_cause:
  "ValidString l \<Longrightarrow>
   WithLabelValues scrapeErrorsDesc cv [l] =
     Some (case map_of cv [l] of None \<Rightarrow> cv @ [([l], 0)] | Some v \<Rightarrow> cv)"
  by (simp add: WithLabelValues_def validateLabelValues_def)

lemma cause_valid:
  "ValidString labelErrorCauseAuth" "ValidString labelErrorCauseOther"
  by (simp_all add: ValidString_def labelErrorCauseAuth_def labelErrorCauseOther_def)

lemma Collect_eq:
  "nextcloudCollector_Collect c w ch =
    (let ch1 = fst (collectNextcloud c w ch);
         c' = (case snd (collectNextcloud c w ch) of
                 None \<Rightarrow> c\<lparr>upMetric := 1\<rparr>
               | Some e \<Rightarrow>
                   c\<lparr>log_lines := log_lines c @ [e],
                     scrapeErrorsMetric :=
                       Inc [if e = ErrNotAuthorized then ''auth'' else ''other'']
                         (the (WithLabelValues scrapeErrorsDesc (scrapeErrorsMetric c)
                                 [if e = ErrNotAuthorized then ''auth'' else ''other''])),
                     upMetric := 0\<rparr>)
     in Some (ch1 @ [gauge upDesc (upMetric c') []]
                  @ map (\<lambda>(lvs, v). \<lparr>desc = scrapeErrorsDesc, valType = CounterValue,
                                       val = v, labelValues = lvs\<rparr>)
                      (range_map (children_order w) (scrapeErrorsMetric c')),
              c'))"
proof (cases "collectNextcloud c w ch")
  case (Pair ch1 r)
  show ?thesis
  proof (cases r)
    case None
    with Pair show ?thesis
      by (simp add: nextcloudCollector_Collect_def Gauge_Collect_def CounterVec_Collect_def)
  next
    case (Some e)
    with Pair show ?thesis
      using cause_valid
      by (simp add: nextcloudCollector_Collect_def Gauge_Collect_def CounterVec_Collect_def
          WithLabelValues_cause labelErrorCauseAuth_def labelErrorCauseOther_def Let_def
          split: option.splits)
  qed
qed

text \<open>
  The output of the mapping, sorted by kind: the scalar metrics, the two maps in the
  order the runtime walked them, and as many of the three labelled metrics as were built
  before the first failure.
\<close>

lemma collectSimpleMetrics_append:
  "collectSimpleMetrics ch status = (ch @ fst (collectSimpleMetrics [] status), None)"
  by (simp add: collectSimpleMetrics_eq)

lemma collectShares_append:
  "collectShares ty order ch shares = (ch @ fst (collectShares ty order [] shares), None)"
  by (simp add: collectShares_eq)

lemma collectFederatedShares_append:
  "collectFederatedShares order ch shares = (ch @ fst (collectFederatedShares order [] shares), None)"
  by (simp add: collectFederatedShares_eq)

lemma readMetrics_take:
  "\<exists>n\<le>3. readMetrics w ch status =
     (ch @ fst (collectSimpleMetrics [] status)
         @ fst (collectShares (shares_int w) (shares_order w) [] (Shares (Nextcloud (Data status))))
         @ fst (collectFederatedShares (federations_order w) [] (Shares (Nextcloud (Data status))))
         @ take n
            [gauge databaseSizeDesc (float64 (Size (Database (Server (Data status)))))
               [Database.Version (Database (Server (Data status))),
                Database.Type (Database (Server (Data status)))],
             gauge systemInfoDesc 1 [System.Version (System (Nextcloud (Data status)))],
             gauge phpInfoDesc 1 [PHP.Version (PHP (Server (Data status)))]],
      snd (readMetrics w ch status))
   \<and> (snd (readMetrics w ch status) = None) = (n = 3)"
proof -
  let ?n = "if \<not> ValidString (Database.Version (Database (Server (Data status)))) then 0
            else if \<not> ValidString (Database.Type (Database (Server (Data status)))) then 0
            else if \<not> ValidString (System.Version (System (Nextcloud (Data status)))) then 1
            else if \<not> ValidString (PHP.Version (PHP (Server (Data status)))) then 2 else (3::nat)"
  have ch3: "fst (collectFederatedShares (federations_order w)
                 (fst (collectShares (shares_int w) (shares_order w)
                    (fst (collectSimpleMetrics ch status)) (Shares (Nextcloud (Data status)))))
                 (Shares (Nextcloud (Data status))))
     = ch @ fst (collectSimpleMetrics [] status)
         @ fst (collectShares (shares_int w) (shares_order w) [] (Shares (Nextcloud (Data status))))
         @ fst (collectFederatedShares (federations_order w) [] (Shares (Nextcloud (Data status))))"
    by (simp add: collectSimpleMetrics_eq collectShares_eq collectFederatedShares_eq)
  show ?thesis
    apply (rule exI[of _ ?n])
    apply (simp only: readMetrics_eq Let_def ch3)
    apply simp
    done
qed



lemma descs_distinct_rev:
  "distinct (rev
    [systemInfoDesc, appsInstalledDesc, appsUpdatesDesc, usersDesc, filesDesc, freeSpaceDesc,
     sharesDesc, federationsDesc, activeUsersDesc, phpInfoDesc, phpMemoryLimitDesc,
     phpMaxUploadSizeDesc, phpOpCacheHits, phpOpCacheMisses, phpOpCachedScripts, phpOpCachedKeys,
     phpAPCuHits, phpAPCuMisses, phpAPCuInserts, phpAPCuEntries, databaseSizeDesc, upDesc,
     scrapeErrorsDesc])"
  using descs_distinct by (simp only: distinct_rev)

lemmas desc_neq_sym = descs_distinct_rev[simplified]


lemma take_le3:
  "n \<le> 3 \<Longrightarrow> take n [a, b, c] \<in> {[], [a], [a, b], [a, b, c]}"
proof -
  assume "n \<le> 3"
  then consider "n = 0" | "n = 1" | "n = 2" | "n = 3" by linarith
  then show ?thesis by cases (simp_all add: numeral_2_eq_2 numeral_3_eq_3)
qed

lemma filter_map_samples:
  "[m \<leftarrow> map (\<lambda>(k, v). gauge d v [k]) kvs. variableLabels (desc m) = []]
     = (if variableLabels d = [] then map (\<lambda>(k, v). gauge d v [k]) kvs else [])"
  "[m \<leftarrow> map (\<lambda>(k, v). gauge d v [k]) kvs. desc m = d']
     = (if d = d' then map (\<lambda>(k, v). gauge d v [k]) kvs else [])"
  by (induction kvs) auto

lemma simple_filters:
  "[m \<leftarrow> fst (collectSimpleMetrics [] status). desc m = sharesDesc] = []"
  "[m \<leftarrow> fst (collectSimpleMetrics [] status). desc m = federationsDesc] = []"
  "[m \<leftarrow> fst (collectSimpleMetrics [] status). variableLabels (desc m) = []]
     = fst (collectSimpleMetrics [] status)"
  by (simp_all add: collectSimpleMetrics_eq desc_neq desc_neq_sym)

lemma shares_filters:
  "[m \<leftarrow> fst (collectShares ty order [] sh). variableLabels (desc m) = []] = []"
  "[m \<leftarrow> fst (collectShares ty order [] sh). desc m = sharesDesc] = fst (collectShares ty order [] sh)"
  "[m \<leftarrow> fst (collectShares ty order [] sh). desc m = federationsDesc] = []"
  by (simp_all add: collectShares_eq filter_map_samples desc_neq desc_neq_sym)

lemma federations_filters:
  "[m \<leftarrow> fst (collectFederatedShares order [] sh). variableLabels (desc m) = []] = []"
  "[m \<leftarrow> fst (collectFederatedShares order [] sh). desc m = sharesDesc] = []"
  "[m \<leftarrow> fst (collectFederatedShares order [] sh). desc m = federationsDesc]
     = fst (collectFederatedShares order [] sh)"
  by (simp_all add: collectFederatedShares_eq filter_map_samples desc_neq desc_neq_sym)

lemma info_filters:
  assumes "n \<le> 3"
  shows "[m \<leftarrow> take n [gauge databaseSizeDesc x xs, gauge systemInfoDesc y ys, gauge phpInfoDesc z zs].
            variableLabels (desc m) = []] = []"
    and "[m \<leftarrow> take n [gauge databaseSizeDesc x xs, gauge systemInfoDesc y ys, gauge phpInfoDesc z zs].
            desc m = sharesDesc] = []"
    and "[m \<leftarrow> take n [gauge databaseSizeDesc x xs, gauge systemInfoDesc y ys, gauge phpInfoDesc z zs].
            desc m = federationsDesc] = []"
proof -
  from assms consider "n = 0" | "n = 1" | "n = 2" | "n = 3" by linarith
  then show "[m \<leftarrow> take n [gauge databaseSizeDesc x xs, gauge systemInfoDesc y ys, gauge phpInfoDesc z zs].
            variableLabels (desc m) = []] = []"
    by cases (simp_all add: numeral_2_eq_2 numeral_3_eq_3)
  from assms consider "n = 0" | "n = 1" | "n = 2" | "n = 3" by linarith
  then show "[m \<leftarrow> take n [gauge databaseSizeDesc x xs, gauge systemInfoDesc y ys, gauge phpInfoDesc z zs].
            desc m = sharesDesc] = []"
    by cases (simp_all add: numeral_2_eq_2 numeral_3_eq_3 desc_neq desc_neq_sym)
  from assms consider "n = 0" | "n = 1" | "n = 2" | "n = 3" by linarith
  then show "[m \<leftarrow> take n [gauge databaseSizeDesc x xs, gauge systemInfoDesc y ys, gauge phpInfoDesc z zs].
            desc m = federationsDesc] = []"
    by cases (simp_all add: numeral_2_eq_2 numeral_3_eq_3 desc_neq desc_neq_sym)
qed

lemma mset_shares:
  "mset (fst (collectShares ty order [] sh)) =
     {#gauge sharesDesc (float64 (SharesUser sh)) [''user''],
       gauge sharesDesc (float64 (SharesGroups sh)) [''group''],
       gauge sharesDesc (float64 (SharesLink sh)) [''link''],
       gauge sharesDesc (float64 (go_sub ty (SharesLink sh) (SharesLinkNoPassword sh))) [''authlink'']#}"
proof -
  have "mset (fst (collectShares ty order [] sh)) =
      image_mset (\<lambda>(k, v). gauge sharesDesc v [k])
        (mset (range_map order
          [(''user'', float64 (SharesUser sh)),
           (''group'', float64 (SharesGroups sh)),
           (''authlink'', float64 (go_sub ty (SharesLink sh) (SharesLinkNoPassword sh))),
           (''link'', float64 (SharesLink sh))]))"
    by (simp add: collectShares_eq)
  then show ?thesis
    by (simp add: mset_range_map)
qed

lemma mset_federations:
  "mset (fst (collectFederatedShares order [] sh)) =
     {#gauge federationsDesc (float64 (FedSent sh)) [''sent''],
       gauge federationsDesc (float64 (FedReceived sh)) [''received'']#}"
proof -
  have "mset (fst (collectFederatedShares order [] sh)) =
      image_mset (\<lambda>(k, v). gauge federationsDesc v [k])
        (mset (range_map order
          [(''sent'', float64 (FedSent sh)), (''received'', float64 (FedReceived sh))]))"
    by (simp add: collectFederatedShares_eq)
  then show ?thesis
    by (simp add: mset_range_map)
qed


text \<open>
  What one scrape adds to the channel before the health metrics: nothing when the fetch
  fails, the output of the mapping otherwise, and never a metric under one of the two
  health descriptors.
\<close>

lemma collectNextcloud_cases:
  "fst (infoClient c w) = Inl e \<Longrightarrow> collectNextcloud c w ch = (ch, Some e)"
  "fst (infoClient c w) = Inr status \<Longrightarrow> collectNextcloud c w ch = readMetrics w ch status"
  by (simp_all add: collectNextcloud_def)

lemma health_filters:
  "[m \<leftarrow> fst (collectSimpleMetrics [] status). desc m = upDesc] = []"
  "[m \<leftarrow> fst (collectSimpleMetrics [] status). desc m = scrapeErrorsDesc] = []"
  "[m \<leftarrow> fst (collectShares ty order [] sh). desc m = upDesc] = []"
  "[m \<leftarrow> fst (collectShares ty order [] sh). desc m = scrapeErrorsDesc] = []"
  "[m \<leftarrow> fst (collectFederatedShares order [] sh). desc m = upDesc] = []"
  "[m \<leftarrow> fst (collectFederatedShares order [] sh). desc m = scrapeErrorsDesc] = []"
  by (simp_all add: collectSimpleMetrics_eq collectShares_eq collectFederatedShares_eq
      filter_map_samples desc_neq desc_neq_sym)

lemma info_health_filters:
  assumes "n \<le> 3"
  shows "[m \<leftarrow> take n [gauge databaseSizeDesc x xs, gauge systemInfoDesc y ys, gauge phpInfoDesc z zs].
            desc m = upDesc] = []"
    and "[m \<leftarrow> take n [gauge databaseSizeDesc x xs, gauge systemInfoDesc y ys, gauge phpInfoDesc z zs].
            desc m = scrapeErrorsDesc] = []"
proof -
  from assms consider "n = 0" | "n = 1" | "n = 2" | "n = 3" by linarith
  then show "[m \<leftarrow> take n [gauge databaseSizeDesc x xs, gauge systemInfoDesc y ys, gauge phpInfoDesc z zs].
            desc m = upDesc] = []"
    by cases (simp_all add: numeral_2_eq_2 numeral_3_eq_3 desc_neq desc_neq_sym)
  from assms consider "n = 0" | "n = 1" | "n = 2" | "n = 3" by linarith
  then show "[m \<leftarrow> take n [gauge databaseSizeDesc x xs, gauge systemInfoDesc y ys, gauge phpInfoDesc z zs].
            desc m = scrapeErrorsDesc] = []"
    by cases (simp_all add: numeral_2_eq_2 numeral_3_eq_3 desc_neq desc_neq_sym)
qed


lemma collectNextcloud_Inr:
  assumes "fst (infoClient c w) = Inr status"
  shows "\<exists>n\<le>3. collectNextcloud c w ch =
     (ch @ fst (collectSimpleMetrics [] status)
         @ fst (collectShares (shares_int w) (shares_order w) [] (Shares (Nextcloud (Data status))))
         @ fst (collectFederatedShares (federations_order w) [] (Shares (Nextcloud (Data status))))
         @ take n
            [gauge databaseSizeDesc (float64 (Size (Database (Server (Data status)))))
               [Database.Version (Database (Server (Data status))),
                Database.Type (Database (Server (Data status)))],
             gauge systemInfoDesc 1 [System.Version (System (Nextcloud (Data status)))],
             gauge phpInfoDesc 1 [PHP.Version (PHP (Server (Data status)))]],
      snd (collectNextcloud c w ch))
   \<and> (snd (collectNextcloud c w ch) = None) = (n = 3)"
  unfolding collectNextcloud_cases(2)[OF assms]
  by (rule readMetrics_take)

lemma collectNextcloud_domain:
  "\<exists>dom. collectNextcloud c w ch = (ch @ dom, snd (collectNextcloud c w ch))
     \<and> [m \<leftarrow> dom. desc m = upDesc] = []
     \<and> [m \<leftarrow> dom. desc m = scrapeErrorsDesc] = []"
proof (cases "fst (infoClient c w)")
  case (Inl e)
  have "collectNextcloud c w ch = (ch @ [], snd (collectNextcloud c w ch))"
    by (simp add: collectNextcloud_cases(1)[OF Inl])
  moreover have "[m \<leftarrow> []. desc m = upDesc] = []" "[m \<leftarrow> []. desc m = scrapeErrorsDesc] = []"
    by simp_all
  ultimately show ?thesis by blast
next
  case (Inr status)
  let ?A = "fst (collectSimpleMetrics [] status)"
  let ?S = "fst (collectShares (shares_int w) (shares_order w) [] (Shares (Nextcloud (Data status))))"
  let ?F = "fst (collectFederatedShares (federations_order w) [] (Shares (Nextcloud (Data status))))"
  let ?I = "[gauge databaseSizeDesc (float64 (Size (Database (Server (Data status)))))
               [Database.Version (Database (Server (Data status))),
                Database.Type (Database (Server (Data status)))],
             gauge systemInfoDesc 1 [System.Version (System (Nextcloud (Data status)))],
             gauge phpInfoDesc 1 [PHP.Version (PHP (Server (Data status)))]]"
  obtain n where n: "n \<le> 3"
    and rm: "collectNextcloud c w ch = (ch @ ?A @ ?S @ ?F @ take n ?I, snd (collectNextcloud c w ch))"
    using collectNextcloud_Inr[OF Inr, of ch] by blast
  note fs = filter_append health_filters info_health_filters[OF n] append_Nil2 append_Nil
  have 1: "[m \<leftarrow> ?A @ ?S @ ?F @ take n ?I. desc m = upDesc] = []"
    by (simp only: fs)
  have 2: "[m \<leftarrow> ?A @ ?S @ ?F @ take n ?I. desc m = scrapeErrorsDesc] = []"
    by (simp only: fs)
  from rm 1 2 show ?thesis by blast
qed

text \<open>
  One scrape, by its outcome: the collector afterwards and what is on the channel.
  Counting an error adds one to the child of its cause and leaves the others alone.
\<close>

lemma counter_value_Inc:
  "counter_value (Inc k (case map_of cv k of None \<Rightarrow> cv @ [(k, 0)] | Some v \<Rightarrow> cv)) l
     = counter_value cv l + (if l = k then 1 else 0)"
  by (auto simp: counter_value_def Inc_def map_of_map_entry split: option.splits)

lemma Collect_failed:
  assumes "snd (collectNextcloud c w ch) = Some e"
      and "cause = (if e = ErrNotAuthorized then ''auth'' else ''other'')"
      and "c' = c\<lparr>log_lines := log_lines c @ [e],
                    scrapeErrorsMetric :=
                      Inc [cause] (case map_of (scrapeErrorsMetric c) [cause] of
                                     None \<Rightarrow> scrapeErrorsMetric c @ [([cause], 0)]
                                   | Some v \<Rightarrow> scrapeErrorsMetric c),
                    upMetric := 0\<rparr>"
  shows "nextcloudCollector_Collect c w ch =
     Some (fst (collectNextcloud c w ch) @ [gauge upDesc 0 []]
             @ map (\<lambda>(lvs, v). \<lparr>desc = scrapeErrorsDesc, valType = CounterValue,
                                  val = v, labelValues = lvs\<rparr>)
                 (range_map (children_order w) (scrapeErrorsMetric c')),
           c')"
proof -
  have v: "ValidString cause"
    using cause_valid
    by (simp add: assms(2) labelErrorCauseAuth_def labelErrorCauseOther_def)
  have W: "the (WithLabelValues scrapeErrorsDesc (scrapeErrorsMetric c) [cause])
      = (case map_of (scrapeErrorsMetric c) [cause] of
           None \<Rightarrow> scrapeErrorsMetric c @ [([cause], 0)]
         | Some v \<Rightarrow> scrapeErrorsMetric c)"
    by (simp add: WithLabelValues_cause[OF v])
  have "nextcloudCollector_Collect c w ch =
     Some (fst (collectNextcloud c w ch)
             @ [gauge upDesc (upMetric (c\<lparr>log_lines := log_lines c @ [e],
                     scrapeErrorsMetric :=
                       Inc [cause]
                         (the (WithLabelValues scrapeErrorsDesc (scrapeErrorsMetric c) [cause])),
                     upMetric := 0\<rparr>)) []]
             @ map (\<lambda>(lvs, v). \<lparr>desc = scrapeErrorsDesc, valType = CounterValue,
                                  val = v, labelValues = lvs\<rparr>)
                 (range_map (children_order w) (scrapeErrorsMetric (c\<lparr>log_lines := log_lines c @ [e],
                     scrapeErrorsMetric :=
                       Inc [cause]
                         (the (WithLabelValues scrapeErrorsDesc (scrapeErrorsMetric c) [cause])),
                     upMetric := 0\<rparr>))),
           c\<lparr>log_lines := log_lines c @ [e],
                     scrapeErrorsMetric :=
                       Inc [cause]
                         (the (WithLabelValues scrapeErrorsDesc (scrapeErrorsMetric c) [cause])),
                     upMetric := 0\<rparr>)"
    unfolding Collect_eq Let_def assms(1) option.case assms(2) by (rule refl)
  then show ?thesis
    unfolding W assms(3) by simp
qed

lemma Collect_succeeded:
  assumes "snd (collectNextcloud c w ch) = None"
  shows "nextcloudCollector_Collect c w ch =
     Some (fst (collectNextcloud c w ch) @ [gauge upDesc 1 []]
             @ map (\<lambda>(lvs, v). \<lparr>desc = scrapeErrorsDesc, valType = CounterValue,
                                  val = v, labelValues = lvs\<rparr>)
                 (range_map (children_order w) (scrapeErrorsMetric c)),
           c\<lparr>upMetric := 1\<rparr>)"
  unfolding Collect_eq Let_def assms option.case
  by simp

text \<open>The example collector on the example world: the fetch and the whole pipeline.\<close>

lemma example_fetch:
  "fst (infoClient example_collector (example_world 401 [])) = Inl ErrNotAuthorized"
  "fst (infoClient example_collector (example_world 503 [])) = Inl (UnexpectedStatusCode 503)"
  "fst (infoClient example_collector (example_world 200 ''ok'')) = Inr example_status"
  by (simp_all add: example_collector_def RegisterCollector_def New_def NewRequest_def
      example_world_def example_parse_def Let_def)

lemma example_valid:
  "ValidString (Database.Version (Database (Server (Data example_status))))"
  "ValidString (Database.Type (Database (Server (Data example_status))))"
  "ValidString (System.Version (System (Nextcloud (Data example_status))))"
  "ValidString (PHP.Version (PHP (Server (Data example_status))))"
  by (simp_all add: example_status_def ValidString_def)

lemma example_pipeline:
  "snd (collectNextcloud example_collector (example_world 401 []) []) = Some ErrNotAuthorized"
  "snd (collectNextcloud example_collector (example_world 503 []) [])
     = Some (UnexpectedStatusCode 503)"
  "snd (collectNextcloud example_collector (example_world 200 ''ok'') []) = None"
  by (simp_all add: collectNextcloud_cases example_fetch readMetrics_eq example_valid Let_def)

text \<open>
  The metrics of the counter vector fall under its descriptor only. The labels of its
  children stay distinct, and a scrape adds at most the label of the error's cause; so a
  collector reached from \<open>RegisterCollector\<close> by any run of scrapes has at most the
  two children auth and other.
\<close>

lemma filter_not_health:
  assumes "[m \<leftarrow> xs. desc m = upDesc] = []" "[m \<leftarrow> xs. desc m = scrapeErrorsDesc] = []"
  shows "[m \<leftarrow> xs. desc m \<noteq> upDesc \<and> desc m \<noteq> scrapeErrorsDesc] = xs"
  using assms by (simp add: filter_empty_conv filter_id_conv)

lemma children_samples:
  "[m \<leftarrow> map (\<lambda>(lvs, v). \<lparr>desc = scrapeErrorsDesc, valType = CounterValue,
                              val = v, labelValues = lvs\<rparr>) kvs. desc m = scrapeErrorsDesc]
     = map (\<lambda>(lvs, v). \<lparr>desc = scrapeErrorsDesc, valType = CounterValue,
                           val = v, labelValues = lvs\<rparr>) kvs"
  "[m \<leftarrow> map (\<lambda>(lvs, v). \<lparr>desc = scrapeErrorsDesc, valType = CounterValue,
                              val = v, labelValues = lvs\<rparr>) kvs. desc m = upDesc] = []"
  "[m \<leftarrow> map (\<lambda>(lvs, v). \<lparr>desc = scrapeErrorsDesc, valType = CounterValue,
                              val = v, labelValues = lvs\<rparr>) kvs.
      desc m \<noteq> upDesc \<and> desc m \<noteq> scrapeErrorsDesc] = []"
proof -
  have ne: "scrapeErrorsDesc \<noteq> upDesc" by (simp add: desc_neq desc_neq_sym)
  show "[m \<leftarrow> map (\<lambda>(lvs, v). \<lparr>desc = scrapeErrorsDesc, valType = CounterValue,
                              val = v, labelValues = lvs\<rparr>) kvs. desc m = scrapeErrorsDesc]
     = map (\<lambda>(lvs, v). \<lparr>desc = scrapeErrorsDesc, valType = CounterValue,
                           val = v, labelValues = lvs\<rparr>) kvs"
    by (induction kvs) auto
  show "[m \<leftarrow> map (\<lambda>(lvs, v). \<lparr>desc = scrapeErrorsDesc, valType = CounterValue,
                              val = v, labelValues = lvs\<rparr>) kvs. desc m = upDesc] = []"
    using ne by (induction kvs) auto
  show "[m \<leftarrow> map (\<lambda>(lvs, v). \<lparr>desc = scrapeErrorsDesc, valType = CounterValue,
                              val = v, labelValues = lvs\<rparr>) kvs.
      desc m \<noteq> upDesc \<and> desc m \<noteq> scrapeErrorsDesc] = []"
    by (induction kvs) auto
qed


lemma children_step:
  "distinct (map fst cv) \<Longrightarrow>
   distinct (map fst (Inc k (case map_of cv k of None \<Rightarrow> cv @ [(k, 0)] | Some v \<Rightarrow> cv)))"
  "set (map fst (Inc k (case map_of cv k of None \<Rightarrow> cv @ [(k, 0)] | Some v \<Rightarrow> cv)))
     = insert k (set (map fst cv))"
proof -
  show "distinct (map fst (Inc k (case map_of cv k of None \<Rightarrow> cv @ [(k, 0)] | Some v \<Rightarrow> cv)))"
    if "distinct (map fst cv)"
  proof (cases "map_of cv k")
    case None
    then have "k \<notin> fst ` set cv" by (simp add: map_of_eq_None_iff)
    with that have "distinct (map fst (cv @ [(k, 0)]))" by simp
    then show ?thesis unfolding Inc_def None option.case by (rule distinct_map_entry)
  next
    case (Some v)
    from that show ?thesis unfolding Inc_def Some option.case by (rule distinct_map_entry)
  qed
  show "set (map fst (Inc k (case map_of cv k of None \<Rightarrow> cv @ [(k, 0)] | Some v \<Rightarrow> cv)))
     = insert k (set (map fst cv))"
  proof (cases "map_of cv k")
    case None
    show ?thesis unfolding Inc_def None option.case
      by (simp add: dom_map_entry)
  next
    case (Some v)
    then have "k \<in> fst ` set cv" by (metis map_of_eq_None_iff option.distinct(1))
    then show ?thesis unfolding Inc_def Some option.case
      by (auto simp: dom_map_entry)
  qed
qed

lemma Collect_output:
  "\<exists>c'. nextcloudCollector_Collect c w ch =
       Some (fst (collectNextcloud c w ch) @ [gauge upDesc (upMetric c') []]
               @ map (\<lambda>(lvs, v). \<lparr>desc = scrapeErrorsDesc, valType = CounterValue,
                                    val = v, labelValues = lvs\<rparr>)
                   (range_map (children_order w) (scrapeErrorsMetric c')),
             c')
     \<and> upMetric c' = (if snd (collectNextcloud c w ch) = None then 1 else 0)
     \<and> infoClient c' = infoClient c
     \<and> (distinct (map fst (scrapeErrorsMetric c)) \<longrightarrow> distinct (map fst (scrapeErrorsMetric c')))
     \<and> set (map fst (scrapeErrorsMetric c'))
          \<subseteq> set (map fst (scrapeErrorsMetric c)) \<union> {[''auth''], [''other'']}"
proof (cases "snd (collectNextcloud c w ch)")
  case None
  show ?thesis
    by (rule exI[of _ "c\<lparr>upMetric := 1\<rparr>"]) (auto simp: Collect_succeeded[OF None] None)
next
  case (Some e)
  define cause where "cause = (if e = ErrNotAuthorized then ''auth'' else ''other'')"
  define c' where "c' = c\<lparr>log_lines := log_lines c @ [e],
                    scrapeErrorsMetric :=
                      Inc [cause] (case map_of (scrapeErrorsMetric c) [cause] of
                                     None \<Rightarrow> scrapeErrorsMetric c @ [([cause], 0)]
                                   | Some v \<Rightarrow> scrapeErrorsMetric c),
                    upMetric := 0\<rparr>"
  have 1: "nextcloudCollector_Collect c w ch =
       Some (fst (collectNextcloud c w ch) @ [gauge upDesc (upMetric c') []]
               @ map (\<lambda>(lvs, v). \<lparr>desc = scrapeErrorsDesc, valType = CounterValue,
                                    val = v, labelValues = lvs\<rparr>)
                   (range_map (children_order w) (scrapeErrorsMetric c')),
             c')"
    unfolding Collect_failed[OF Some cause_def c'_def] by (simp add: c'_def)
  have 2: "upMetric c' = (if snd (collectNextcloud c w ch) = None then 1 else 0)"
    by (simp add: Some c'_def)
  have 3: "infoClient c' = infoClient c" by (simp add: c'_def)
  have 4: "distinct (map fst (scrapeErrorsMetric c)) \<longrightarrow> distinct (map fst (scrapeErrorsMetric c'))"
    by (simp add: c'_def children_step(1))
  have "cause = ''auth'' \<or> cause = ''other''" by (simp add: cause_def)
  then have 5: "set (map fst (scrapeErrorsMetric c'))
          \<subseteq> set (map fst (scrapeErrorsMetric c)) \<union> {[''auth''], [''other'']}"
    unfolding c'_def by (auto simp: children_step(2) simp del: set_map)
  from 1 2 3 4 5 show ?thesis by blast
qed



lemma example_collector_fields:
  "log_lines example_collector = []"
  "upMetric example_collector = 0"
  "scrapeErrorsMetric example_collector = []"
  by (simp_all add: example_collector_def RegisterCollector_def)




text \<open>
  The three steps that cannot fail send 22 metrics. The stub collector's document fails
  at the database metric, after these.
\<close>

lemma domain_lengths:
  "length (fst (collectSimpleMetrics [] status)) = 16"
  "length (fst (collectShares ty order [] sh)) = 4"
  "length (fst (collectFederatedShares order [] sh)) = 2"
  by (simp_all add: collectSimpleMetrics_eq collectShares_eq collectFederatedShares_eq
      length_range_map)

lemma stub_fetch:
  "fst (infoClient stub_collector w) = Inr bad_status"
  by (simp add: stub_collector_def RegisterCollector_def)

lemma bad_status_fields:
  "\<not> ValidString (Database.Version (Database (Server (Data bad_status))))"
  "Database.Version (Database (Server (Data bad_status))) = [CHR 0xFF]"
  "Users (Storage (Nextcloud (Data bad_status))) = 120"
  "SharesLink (Shares (Nextcloud (Data bad_status))) = 10"
  "SharesLinkNoPassword (Shares (Nextcloud (Data bad_status))) = 3"
  "\<not> ValidString [CHR 0xFF]"
  by (simp_all add: bad_status_def example_status_def ValidString_def)

lemma stub_pipeline:
  "snd (readMetrics w ch bad_status) = Some (InvalidLabelValue [CHR 0xFF])"
  "snd (collectNextcloud stub_collector w ch) = Some (InvalidLabelValue [CHR 0xFF])"
  "fst (collectNextcloud stub_collector w ch) =
     ch @ fst (collectSimpleMetrics [] bad_status)
        @ fst (collectShares (shares_int w) (shares_order w) [] (Shares (Nextcloud (Data bad_status))))
        @ fst (collectFederatedShares (federations_order w) [] (Shares (Nextcloud (Data bad_status))))"
proof -
  show 1: "snd (readMetrics w ch bad_status) = Some (InvalidLabelValue [CHR 0xFF])"
    by (simp add: readMetrics_eq Let_def bad_status_fields(2,6))
  then show "snd (collectNextcloud stub_collector w ch) = Some (InvalidLabelValue [CHR 0xFF])"
    by (simp add: collectNextcloud_cases(2)[OF stub_fetch])
  have "fst (readMetrics w ch bad_status) =
     ch @ fst (collectSimpleMetrics [] bad_status)
        @ fst (collectShares (shares_int w) (shares_order w) [] (Shares (Nextcloud (Data bad_status))))
        @ fst (collectFederatedShares (federations_order w) [] (Shares (Nextcloud (Data bad_status))))"
    by (simp add: readMetrics_eq Let_def bad_status_fields(2,6)
        collectSimpleMetrics_eq collectShares_eq collectFederatedShares_eq)
  then show "fst (collectNextcloud stub_collector w ch) =
     ch @ fst (collectSimpleMetrics [] bad_status)
        @ fst (collectShares (shares_int w) (shares_order w) [] (Shares (Nextcloud (Data bad_status))))
        @ fst (collectFederatedShares (federations_order w) [] (Shares (Nextcloud (Data bad_status))))"
    by (simp only: collectNextcloud_cases(2)[OF stub_fetch])
qed

section \<open>What the mapping sends\<close>

text \<open>
  Claim C7. For every status document, whatever its field values, also when one of the
  later labelled metrics cannot be built: the metrics without labels that the mapping
  sends are the sixteen scalar metrics, one for each descriptor, each with the value of
  its field converted to \<open>float64\<close>; the metrics of the shares descriptor are exactly
  the four with the labels user, group, link and authlink; and the metrics of the
  federation descriptor are exactly the two with the labels sent and received.
\<close>

theorem mapping_emits_all_scalar_and_share_samples:
  "\<exists>out e. readMetrics w ch status = (ch @ out, e)
     \<and> [m \<leftarrow> out. variableLabels (desc m) = []] =
         [gauge appsInstalledDesc (float64 (Installed (System.Apps (System (Nextcloud (Data status)))))) [],
          gauge appsUpdatesDesc (float64 (AvailableUpdates (System.Apps (System (Nextcloud (Data status)))))) [],
          gauge usersDesc (float64 (Users (Storage (Nextcloud (Data status))))) [],
          gauge filesDesc (float64 (Files (Storage (Nextcloud (Data status))))) [],
          gauge freeSpaceDesc (float64 (FreeSpace (System (Nextcloud (Data status))))) [],
          gauge activeUsersDesc (float64 (Last5Minutes (ActiveUsers (Data status)))) [],
          gauge phpMemoryLimitDesc (float64 (MemoryLimit (PHP (Server (Data status))))) [],
          gauge phpMaxUploadSizeDesc (float64 (UploadMaxFilesize (PHP (Server (Data status))))) [],
          gauge phpOpCacheHits (float64 (OpCacheStats.Hits (Stats (OpCache (PHP (Server (Data status))))))) [],
          gauge phpOpCacheMisses (float64 (OpCacheStats.Misses (Stats (OpCache (PHP (Server (Data status))))))) [],
          gauge phpOpCachedScripts (float64 (CachedScripts (Stats (OpCache (PHP (Server (Data status))))))) [],
          gauge phpOpCachedKeys (float64 (CachedKeys (Stats (OpCache (PHP (Server (Data status))))))) [],
          gauge phpAPCuHits (float64 (APCuCache.Hits (Cache (APCu (PHP (Server (Data status))))))) [],
          gauge phpAPCuMisses (float64 (APCuCache.Misses (Cache (APCu (PHP (Server (Data status))))))) [],
          gauge phpAPCuInserts (float64 (Inserts (Cache (APCu (PHP (Server (Data status))))))) [],
          gauge phpAPCuEntries (float64 (Entries (Cache (APCu (PHP (Server (Data status))))))) []]
     \<and> mset [m \<leftarrow> out. desc m = sharesDesc] =
         {#gauge sharesDesc (float64 (SharesUser (Shares (Nextcloud (Data status))))) [''user''],
           gauge sharesDesc (float64 (SharesGroups (Shares (Nextcloud (Data status))))) [''group''],
           gauge sharesDesc (float64 (SharesLink (Shares (Nextcloud (Data status))))) [''link''],
           gauge sharesDesc
             (float64 (go_sub (shares_int w) (SharesLink (Shares (Nextcloud (Data status))))
                                (SharesLinkNoPassword (Shares (Nextcloud (Data status))))))
             [''authlink'']#}
     \<and> mset [m \<leftarrow> out. desc m = federationsDesc] =
         {#gauge federationsDesc (float64 (FedSent (Shares (Nextcloud (Data status))))) [''sent''],
           gauge federationsDesc (float64 (FedReceived (Shares (Nextcloud (Data status))))) [''received'']#}"
proof -
  let ?sh = "Shares (Nextcloud (Data status))"
  let ?A = "fst (collectSimpleMetrics [] status)"
  let ?S = "fst (collectShares (shares_int w) (shares_order w) [] ?sh)"
  let ?F = "fst (collectFederatedShares (federations_order w) [] ?sh)"
  let ?I = "[gauge databaseSizeDesc (float64 (Size (Database (Server (Data status)))))
               [Database.Version (Database (Server (Data status))),
                Database.Type (Database (Server (Data status)))],
             gauge systemInfoDesc 1 [System.Version (System (Nextcloud (Data status)))],
             gauge phpInfoDesc 1 [PHP.Version (PHP (Server (Data status)))]]"
  obtain n where n: "n \<le> 3"
    and rm: "readMetrics w ch status = (ch @ ?A @ ?S @ ?F @ take n ?I, snd (readMetrics w ch status))"
    using readMetrics_take[of w ch status] by blast
  note fs = filter_append simple_filters shares_filters federations_filters info_filters[OF n]
    append_Nil2 append_Nil
  have 1: "[m \<leftarrow> ?A @ ?S @ ?F @ take n ?I. variableLabels (desc m) = []] = ?A"
    by (simp only: fs)
  have 2: "[m \<leftarrow> ?A @ ?S @ ?F @ take n ?I. desc m = sharesDesc] = ?S"
    by (simp only: fs)
  have 3: "[m \<leftarrow> ?A @ ?S @ ?F @ take n ?I. desc m = federationsDesc] = ?F"
    by (simp only: fs)
  have A: "?A = fst (collectSimpleMetrics [] status)" ..
  show ?thesis
    apply (rule exI[of _ "?A @ ?S @ ?F @ take n ?I"])
    apply (rule exI[of _ "snd (readMetrics w ch status)"])
    apply (intro conjI)
       apply (rule rm)
      apply (simp only: 1)
      apply (simp add: collectSimpleMetrics_eq)
     apply (simp only: 2 mset_shares)
    apply (simp only: 3 mset_federations)
    done
qed


text \<open>The example document of the specification, mapped.\<close>

theorem mapping_emits_all_scalar_and_share_samples_witness:
  "[m \<leftarrow> fst (readMetrics (example_world 200 ''ok'') [] example_status). variableLabels (desc m) = []] =
         [gauge appsInstalledDesc 42 [], gauge appsUpdatesDesc 3 [], gauge usersDesc 120 [],
          gauge filesDesc 58930 [], gauge freeSpaceDesc 10000000000 [], gauge activeUsersDesc 4 [],
          gauge phpMemoryLimitDesc 536870912 [], gauge phpMaxUploadSizeDesc 1073741824 [],
          gauge phpOpCacheHits 900 [], gauge phpOpCacheMisses 17 [],
          gauge phpOpCachedScripts 250 [], gauge phpOpCachedKeys 400 [],
          gauge phpAPCuHits 70 [], gauge phpAPCuMisses 8 [],
          gauge phpAPCuInserts 12 [], gauge phpAPCuEntries 11 []]
   \<and> mset [m \<leftarrow> fst (readMetrics (example_world 200 ''ok'') [] example_status). desc m = sharesDesc] =
         {#gauge sharesDesc 5 [''user''], gauge sharesDesc 2 [''group''],
           gauge sharesDesc 10 [''link''], gauge sharesDesc 7 [''authlink'']#}
   \<and> mset [m \<leftarrow> fst (readMetrics (example_world 200 ''ok'') [] example_status). desc m = federationsDesc] =
         {#gauge federationsDesc 1 [''sent''], gauge federationsDesc 0 [''received'']#}"
proof -
  obtain out e where
    "readMetrics (example_world 200 ''ok'') [] example_status = ([] @ out, e)"
    and "[m \<leftarrow> out. variableLabels (desc m) = []] =
         [gauge appsInstalledDesc (float64 (Installed (System.Apps (System (Nextcloud (Data example_status)))))) [],
          gauge appsUpdatesDesc (float64 (AvailableUpdates (System.Apps (System (Nextcloud (Data example_status)))))) [],
          gauge usersDesc (float64 (Users (Storage (Nextcloud (Data example_status))))) [],
          gauge filesDesc (float64 (Files (Storage (Nextcloud (Data example_status))))) [],
          gauge freeSpaceDesc (float64 (FreeSpace (System (Nextcloud (Data example_status))))) [],
          gauge activeUsersDesc (float64 (Last5Minutes (ActiveUsers (Data example_status)))) [],
          gauge phpMemoryLimitDesc (float64 (MemoryLimit (PHP (Server (Data example_status))))) [],
          gauge phpMaxUploadSizeDesc (float64 (UploadMaxFilesize (PHP (Server (Data example_status))))) [],
          gauge phpOpCacheHits (float64 (OpCacheStats.Hits (Stats (OpCache (PHP (Server (Data example_status))))))) [],
          gauge phpOpCacheMisses (float64 (OpCacheStats.Misses (Stats (OpCache (PHP (Server (Data example_status))))))) [],
          gauge phpOpCachedScripts (float64 (CachedScripts (Stats (OpCache (PHP (Server (Data example_status))))))) [],
          gauge phpOpCachedKeys (float64 (CachedKeys (Stats (OpCache (PHP (Server (Data example_status))))))) [],
          gauge phpAPCuHits (float64 (APCuCache.Hits (Cache (APCu (PHP (Server (Data example_status))))))) [],
          gauge phpAPCuMisses (float64 (APCuCache.Misses (Cache (APCu (PHP (Server (Data example_status))))))) [],
          gauge phpAPCuInserts (float64 (Inserts (Cache (APCu (PHP (Server (Data example_status))))))) [],
          gauge phpAPCuEntries (float64 (Entries (Cache (APCu (PHP (Server (Data example_status))))))) []]"
    and "mset [m \<leftarrow> out. desc m = sharesDesc] =
         {#gauge sharesDesc (float64 (SharesUser (Shares (Nextcloud (Data example_status))))) [''user''],
           gauge sharesDesc (float64 (SharesGroups (Shares (Nextcloud (Data example_status))))) [''group''],
           gauge sharesDesc (float64 (SharesLink (Shares (Nextcloud (Data example_status))))) [''link''],
           gauge sharesDesc
             (float64 (go_sub (shares_int (example_world 200 ''ok''))
                (SharesLink (Shares (Nextcloud (Data example_status))))
                (SharesLinkNoPassword (Shares (Nextcloud (Data example_status))))))
             [''authlink'']#}"
    and "mset [m \<leftarrow> out. desc m = federationsDesc] =
         {#gauge federationsDesc (float64 (FedSent (Shares (Nextcloud (Data example_status))))) [''sent''],
           gauge federationsDesc (float64 (FedReceived (Shares (Nextcloud (Data example_status))))) [''received'']#}"
    using mapping_emits_all_scalar_and_share_samples[of "example_world 200 ''ok''" "[]" example_status]
    by blast
  then show ?thesis
    by (simp add: example_status_def example_world_def float64_exact go_sub_def wrap_def)
qed




section \<open>The health state after a scrape\<close>

text \<open>
  Claim C2. \<open>Collect\<close> always returns. If the pipeline \<open>collectNextcloud\<close> returns
  an error, the gauge is set to 0 and exactly one child of the error counter grows, by
  one: the child with cause auth if the error is \<open>ErrNotAuthorized\<close> and the child
  with cause other for every other error, whatever its kind; all other children keep
  their count. If the pipeline succeeds, the gauge is set to 1 and the counter vector is
  left as it was.
\<close>

theorem collect_counts_error_by_cause:
  "\<exists>out c'. nextcloudCollector_Collect c w ch = Some (out, c')
     \<and> (\<forall>e. snd (collectNextcloud c w ch) = Some e \<longrightarrow>
            upMetric c' = 0
          \<and> (\<forall>l. counter_value (scrapeErrorsMetric c') l
                 = counter_value (scrapeErrorsMetric c) l
                   + (if l = [if e = ErrNotAuthorized then labelErrorCauseAuth
                              else labelErrorCauseOther] then 1 else 0)))
     \<and> (snd (collectNextcloud c w ch) = None \<longrightarrow>
            upMetric c' = 1 \<and> scrapeErrorsMetric c' = scrapeErrorsMetric c)
     \<and> labelErrorCauseAuth = ''auth'' \<and> labelErrorCauseOther = ''other''"
proof (cases "snd (collectNextcloud c w ch)")
  case None
  show ?thesis
    unfolding Collect_succeeded[OF None] None
    by (simp add: labelErrorCauseAuth_def labelErrorCauseOther_def)
next
  case (Some e)
  define cause where "cause = (if e = ErrNotAuthorized then ''auth'' else ''other'')"
  define c' where "c' = c\<lparr>log_lines := log_lines c @ [e],
                    scrapeErrorsMetric :=
                      Inc [cause] (case map_of (scrapeErrorsMetric c) [cause] of
                                     None \<Rightarrow> scrapeErrorsMetric c @ [([cause], 0)]
                                   | Some v \<Rightarrow> scrapeErrorsMetric c),
                    upMetric := 0\<rparr>"
  have up: "upMetric c' = 0" by (simp add: c'_def)
  have cv: "counter_value (scrapeErrorsMetric c') l
      = counter_value (scrapeErrorsMetric c) l + (if l = [cause] then 1 else 0)" for l
    unfolding c'_def by (simp add: counter_value_Inc)
  have lab: "[if e = ErrNotAuthorized then labelErrorCauseAuth else labelErrorCauseOther] = [cause]"
    by (simp add: cause_def labelErrorCauseAuth_def labelErrorCauseOther_def)
  have main: "\<forall>e'. Some e = Some e' \<longrightarrow>
            upMetric c' = 0
          \<and> (\<forall>l. counter_value (scrapeErrorsMetric c') l
                 = counter_value (scrapeErrorsMetric c) l
                   + (if l = [if e' = ErrNotAuthorized then labelErrorCauseAuth
                              else labelErrorCauseOther] then 1 else 0))"
  proof (intro allI impI)
    fix e'
    assume "Some e = Some e'"
    then have e: "e' = e" by simp
    show "upMetric c' = 0
          \<and> (\<forall>l. counter_value (scrapeErrorsMetric c') l
                 = counter_value (scrapeErrorsMetric c) l
                   + (if l = [if e' = ErrNotAuthorized then labelErrorCauseAuth
                              else labelErrorCauseOther] then 1 else 0))"
      unfolding e lab using up cv by blast
  qed
  have rest: "Some e = None \<longrightarrow> upMetric c' = 1 \<and> scrapeErrorsMetric c' = scrapeErrorsMetric c"
    by simp
  have labs: "labelErrorCauseAuth = ''auth''" "labelErrorCauseOther = ''other''"
    by (simp_all add: labelErrorCauseAuth_def labelErrorCauseOther_def)
  show ?thesis
    unfolding Some
    by (intro exI[of _ c'] exI conjI main rest labs)
       (rule Collect_failed[OF Some cause_def c'_def])
qed

text \<open>
  On a new collector: a 401 counts under auth, a 503 under other, both with the gauge at
  0; a good scrape sets the gauge to 1 and counts nothing.
\<close>

theorem collect_counts_error_by_cause_witness:
  "snd (collectNextcloud example_collector (example_world 401 []) []) = Some ErrNotAuthorized
   \<and> upMetric (snd (the (nextcloudCollector_Collect example_collector (example_world 401 []) []))) = 0
   \<and> counter_value (scrapeErrorsMetric
         (snd (the (nextcloudCollector_Collect example_collector (example_world 401 []) []))))
         [''auth''] = 1
   \<and> counter_value (scrapeErrorsMetric
         (snd (the (nextcloudCollector_Collect example_collector (example_world 401 []) []))))
         [''other''] = 0
   \<and> snd (collectNextcloud example_collector (example_world 503 []) [])
       = Some (UnexpectedStatusCode 503)
   \<and> upMetric (snd (the (nextcloudCollector_Collect example_collector (example_world 503 []) []))) = 0
   \<and> counter_value (scrapeErrorsMetric
         (snd (the (nextcloudCollector_Collect example_collector (example_world 503 []) []))))
         [''other''] = 1
   \<and> counter_value (scrapeErrorsMetric
         (snd (the (nextcloudCollector_Collect example_collector (example_world 503 []) []))))
         [''auth''] = 0
   \<and> snd (collectNextcloud example_collector (example_world 200 ''ok'') []) = None
   \<and> upMetric (snd (the (nextcloudCollector_Collect example_collector (example_world 200 ''ok'') []))) = 1
   \<and> scrapeErrorsMetric
         (snd (the (nextcloudCollector_Collect example_collector (example_world 200 ''ok'') [])))
       = []"
proof -
  have z: "counter_value (scrapeErrorsMetric example_collector) l = 0" for l
    by (simp add: example_collector_def RegisterCollector_def counter_value_def)
  have n: "scrapeErrorsMetric example_collector = []"
    by (simp add: example_collector_def RegisterCollector_def)
  show ?thesis
    using collect_counts_error_by_cause[of example_collector "example_world 401 []" "[]"]
      collect_counts_error_by_cause[of example_collector "example_world 503 []" "[]"]
      collect_counts_error_by_cause[of example_collector "example_world 200 ''ok''" "[]"]
    by (auto simp: example_pipeline z n counter_value_def
        labelErrorCauseAuth_def labelErrorCauseOther_def)
qed

section \<open>The health metrics of a scrape\<close>




section \<open>What a failed scrape leaves on the channel\<close>

text \<open>
  Claim C8, as amended. When the fetch fails, \<open>Collect\<close> sends the health metrics
  only. When the mapping fails, the metrics sent before the failing step stay on the
  channel, in front of the health metrics: the sixteen scalar metrics, the four shares
  and the two federation metrics, and those of the labelled metrics (database size,
  system info, PHP info, in this order) that were built before the one that failed; the
  failing metric and the later ones are not sent.
\<close>

theorem failed_scrape_output:
  "\<exists>out c'. nextcloudCollector_Collect c w ch = Some (ch @ out, c')
     \<and> (\<forall>e. fst (infoClient c w) = Inl e \<longrightarrow>
           [m \<leftarrow> out. desc m \<noteq> upDesc \<and> desc m \<noteq> scrapeErrorsDesc] = [])
     \<and> (\<forall>status. fst (infoClient c w) = Inr status \<and> snd (readMetrics w ch status) \<noteq> None \<longrightarrow>
           (\<exists>n<3. [m \<leftarrow> out. desc m \<noteq> upDesc \<and> desc m \<noteq> scrapeErrorsDesc] =
                fst (collectSimpleMetrics [] status)
              @ fst (collectShares (shares_int w) (shares_order w) []
                       (Shares (Nextcloud (Data status))))
              @ fst (collectFederatedShares (federations_order w) []
                       (Shares (Nextcloud (Data status))))
              @ take n
                  [gauge databaseSizeDesc (float64 (Size (Database (Server (Data status)))))
                     [Database.Version (Database (Server (Data status))),
                      Database.Type (Database (Server (Data status)))],
                   gauge systemInfoDesc 1 [System.Version (System (Nextcloud (Data status)))],
                   gauge phpInfoDesc 1 [PHP.Version (PHP (Server (Data status)))]]
              \<and> length [m \<leftarrow> out. desc m \<noteq> upDesc \<and> desc m \<noteq> scrapeErrorsDesc] = 22 + n))"
proof -
  let ?child = "\<lambda>(lvs, v). \<lparr>desc = scrapeErrorsDesc, valType = CounterValue,
                               val = v, labelValues = lvs\<rparr>"
  let ?P = "\<lambda>m. desc m \<noteq> upDesc \<and> desc m \<noteq> scrapeErrorsDesc"
  from collectNextcloud_domain[of c w ch] obtain dom where
    cn: "collectNextcloud c w ch = (ch @ dom, snd (collectNextcloud c w ch))"
    and du: "[m \<leftarrow> dom. desc m = upDesc] = []"
    and de: "[m \<leftarrow> dom. desc m = scrapeErrorsDesc] = []"
    by blast
  from Collect_output[of c w ch] obtain c' where
    co: "nextcloudCollector_Collect c w ch =
       Some (fst (collectNextcloud c w ch) @ [gauge upDesc (upMetric c') []]
               @ map ?child (range_map (children_order w) (scrapeErrorsMetric c')), c')"
    by blast
  let ?errs = "map ?child (range_map (children_order w) (scrapeErrorsMetric c'))"
  let ?out = "dom @ [gauge upDesc (upMetric c') []] @ ?errs"
  have f: "fst (collectNextcloud c w ch) = ch @ dom"
    by (subst cn) simp
  have 1: "nextcloudCollector_Collect c w ch = Some (ch @ ?out, c')"
    unfolding co f by simp
  have dom: "filter ?P ?out = dom"
    by (simp add: filter_not_health[OF du de] children_samples(3))
  have 2: "\<forall>e. fst (infoClient c w) = Inl e \<longrightarrow> filter ?P ?out = []"
  proof (intro allI impI)
    fix e assume "fst (infoClient c w) = Inl e"
    then have "fst (collectNextcloud c w ch) = ch" by (simp add: collectNextcloud_cases(1))
    then have "dom = []" unfolding f by simp
    with dom show "filter ?P ?out = []" by simp
  qed
  have 3: "\<forall>status. fst (infoClient c w) = Inr status \<and> snd (readMetrics w ch status) \<noteq> None \<longrightarrow>
           (\<exists>n<3. filter ?P ?out =
                fst (collectSimpleMetrics [] status)
              @ fst (collectShares (shares_int w) (shares_order w) []
                       (Shares (Nextcloud (Data status))))
              @ fst (collectFederatedShares (federations_order w) []
                       (Shares (Nextcloud (Data status))))
              @ take n
                  [gauge databaseSizeDesc (float64 (Size (Database (Server (Data status)))))
                     [Database.Version (Database (Server (Data status))),
                      Database.Type (Database (Server (Data status)))],
                   gauge systemInfoDesc 1 [System.Version (System (Nextcloud (Data status)))],
                   gauge phpInfoDesc 1 [PHP.Version (PHP (Server (Data status)))]]
              \<and> length (filter ?P ?out) = 22 + n)"
  proof (intro allI impI)
    fix status
    assume a: "fst (infoClient c w) = Inr status \<and> snd (readMetrics w ch status) \<noteq> None"
    let ?A = "fst (collectSimpleMetrics [] status)"
    let ?S = "fst (collectShares (shares_int w) (shares_order w) [] (Shares (Nextcloud (Data status))))"
    let ?F = "fst (collectFederatedShares (federations_order w) [] (Shares (Nextcloud (Data status))))"
    let ?I = "[gauge databaseSizeDesc (float64 (Size (Database (Server (Data status)))))
               [Database.Version (Database (Server (Data status))),
                Database.Type (Database (Server (Data status)))],
             gauge systemInfoDesc 1 [System.Version (System (Nextcloud (Data status)))],
             gauge phpInfoDesc 1 [PHP.Version (PHP (Server (Data status)))]]"
    from a have i: "fst (infoClient c w) = Inr status" by simp
    from a have "snd (collectNextcloud c w ch) \<noteq> None"
      by (simp add: collectNextcloud_cases(2)[OF i])
    with collectNextcloud_Inr[OF i, of ch] obtain n where
      n: "n \<le> 3" "n \<noteq> 3"
      and cn': "collectNextcloud c w ch = (ch @ ?A @ ?S @ ?F @ take n ?I, snd (collectNextcloud c w ch))"
      by blast
    have "fst (collectNextcloud c w ch) = ch @ ?A @ ?S @ ?F @ take n ?I"
      by (subst cn') simp
    then have d: "dom = ?A @ ?S @ ?F @ take n ?I"
      unfolding f by simp
    from n have n3: "n < 3" by simp
    have l: "length dom = 22 + n"
      unfolding d using n3 by (simp add: domain_lengths)
    from n3 d l show "\<exists>n<3. filter ?P ?out = ?A @ ?S @ ?F @ take n ?I \<and> length (filter ?P ?out) = 22 + n"
      unfolding dom by blast
  qed
  from 1 2 3 show ?thesis by blast
qed

text \<open>
  A 401 leaves no domain metric; the document with the database version that is not
  valid UTF-8 leaves at least the 22 metrics of the first three steps.
\<close>

theorem failed_scrape_output_witness:
  "fst (infoClient example_collector (example_world 401 [])) = Inl ErrNotAuthorized
   \<and> [m \<leftarrow> fst (the (nextcloudCollector_Collect example_collector (example_world 401 []) [])).
        desc m \<noteq> upDesc \<and> desc m \<noteq> scrapeErrorsDesc] = []
   \<and> fst (infoClient stub_collector (example_world 200 ''ok'')) = Inr bad_status
   \<and> snd (readMetrics (example_world 200 ''ok'') [] bad_status) \<noteq> None
   \<and> 22 \<le> length [m \<leftarrow> fst (the (nextcloudCollector_Collect stub_collector
                                      (example_world 200 ''ok'') [])).
                  desc m \<noteq> upDesc \<and> desc m \<noteq> scrapeErrorsDesc]"
  using failed_scrape_output[of example_collector "example_world 401 []" "[]"]
    failed_scrape_output[of stub_collector "example_world 200 ''ok''" "[]"]
  by (auto simp: example_fetch(1) stub_fetch stub_pipeline(1))

text \<open>
  Against claim C8 as it was stated: the scrape of the stub collector fails in the
  mapping, at the database metric, and yet the users metric and the authlink metric have
  been sent.
\<close>

theorem failed_mapping_keeps_samples_counterexample:
  "snd (collectNextcloud stub_collector (example_world 200 ''ok'') [])
     = Some (InvalidLabelValue [CHR 0xFF])
   \<and> gauge usersDesc 120 []
       \<in> set (fst (the (nextcloudCollector_Collect stub_collector (example_world 200 ''ok'') [])))
   \<and> gauge sharesDesc 7 [''authlink'']
       \<in> set (fst (the (nextcloudCollector_Collect stub_collector (example_world 200 ''ok'') [])))"
proof -
  let ?w = "example_world 200 ''ok''"
  from Collect_output[of stub_collector ?w "[]"] obtain c' where
    "nextcloudCollector_Collect stub_collector ?w [] =
       Some (fst (collectNextcloud stub_collector ?w []) @ [gauge upDesc (upMetric c') []]
               @ map (\<lambda>(lvs, v). \<lparr>desc = scrapeErrorsDesc, valType = CounterValue,
                                    val = v, labelValues = lvs\<rparr>)
                   (range_map (children_order ?w) (scrapeErrorsMetric c')), c')"
    by blast
  then have sub: "set (fst (collectNextcloud stub_collector ?w []))
      \<subseteq> set (fst (the (nextcloudCollector_Collect stub_collector ?w [])))"
    by auto
  have u: "gauge usersDesc 120 [] \<in> set (fst (collectSimpleMetrics [] bad_status))"
    by (simp add: collectSimpleMetrics_eq bad_status_fields(3) float64_exact)
  have "gauge sharesDesc (float64 (go_sub (Signed 64) 10 3)) [''authlink'']
      \<in># mset (fst (collectShares (Signed 64) (shares_order ?w) [] (Shares (Nextcloud (Data bad_status)))))"
    unfolding mset_shares by (simp add: bad_status_fields(4,5))
  moreover have "float64 (go_sub (Signed 64) 10 3) = 7"
    by (simp add: go_sub_def wrap_def float64_exact)
  moreover have "shares_int ?w = Signed 64" by (simp add: example_world_def)
  ultimately have a: "gauge sharesDesc 7 [''authlink'']
      \<in> set (fst (collectShares (shares_int ?w) (shares_order ?w) [] (Shares (Nextcloud (Data bad_status)))))"
    by simp
  from u a have "gauge usersDesc 120 [] \<in> set (fst (collectNextcloud stub_collector ?w []))"
    "gauge sharesDesc 7 [''authlink''] \<in> set (fst (collectNextcloud stub_collector ?w []))"
    unfolding stub_pipeline(3) by simp_all
  with sub stub_pipeline(2)[of ?w "[]"] show ?thesis by blast
qed

section \<open>The descriptors that Describe sends\<close>

text \<open>The descriptors of the metrics of one good scrape of the example, in the order sent.\<close>

lemma example_success_descs:
  "map desc (fst (the (nextcloudCollector_Collect example_collector (example_world 200 ''ok'') [])))
     = [appsInstalledDesc, appsUpdatesDesc, usersDesc, filesDesc, freeSpaceDesc, activeUsersDesc,
        phpMemoryLimitDesc, phpMaxUploadSizeDesc, phpOpCacheHits, phpOpCacheMisses,
        phpOpCachedScripts, phpOpCachedKeys, phpAPCuHits, phpAPCuMisses, phpAPCuInserts,
        phpAPCuEntries, sharesDesc, sharesDesc, sharesDesc, sharesDesc, federationsDesc,
        federationsDesc, databaseSizeDesc, systemInfoDesc, phpInfoDesc, upDesc]"
proof -
  let ?w = "example_world 200 ''ok''"
  have m: "map (desc \<circ> (\<lambda>(k, v). gauge d v [k])) kvs = replicate (length kvs) d" for d kvs
    by (induction kvs) auto
  have f: "fst (collectNextcloud example_collector ?w []) = fst (readMetrics ?w [] example_status)"
    by (simp add: collectNextcloud_cases(2)[OF example_fetch(3)])
  have r: "map desc (fst (readMetrics ?w [] example_status)) =
       [appsInstalledDesc, appsUpdatesDesc, usersDesc, filesDesc, freeSpaceDesc, activeUsersDesc,
        phpMemoryLimitDesc, phpMaxUploadSizeDesc, phpOpCacheHits, phpOpCacheMisses,
        phpOpCachedScripts, phpOpCachedKeys, phpAPCuHits, phpAPCuMisses, phpAPCuInserts,
        phpAPCuEntries, sharesDesc, sharesDesc, sharesDesc, sharesDesc, federationsDesc,
        federationsDesc, databaseSizeDesc, systemInfoDesc, phpInfoDesc]"
    by (simp add: readMetrics_eq Let_def example_valid collectSimpleMetrics_eq collectShares_eq
        collectFederatedShares_eq m length_range_map)
  show ?thesis
    unfolding Collect_succeeded[OF example_pipeline(3)] f
    by (simp add: r example_collector_fields)
qed

text \<open>
  On claim C5. \<open>Describe\<close> takes no world, so it reaches nothing outside, and what it
  sends does not depend on the collector's state: the two health descriptors and six
  others. It is not the full set: a good scrape of the example document sends metrics
  under fifteen descriptors that \<open>Describe\<close> never sends, listed here in the order of
  their metrics.
\<close>

theorem describe_omits_collected_descriptors:
  "nextcloudCollector_Describe example_collector []
     = [upDesc, scrapeErrorsDesc, usersDesc, filesDesc, freeSpaceDesc, sharesDesc,
        federationsDesc, activeUsersDesc]
   \<and> snd (collectNextcloud example_collector (example_world 200 ''ok'') []) = None
   \<and> [d \<leftarrow> map desc (fst (the (nextcloudCollector_Collect example_collector
                                   (example_world 200 ''ok'') []))).
        d \<notin> set (nextcloudCollector_Describe example_collector [])]
     = [appsInstalledDesc, appsUpdatesDesc, phpMemoryLimitDesc, phpMaxUploadSizeDesc,
        phpOpCacheHits, phpOpCacheMisses, phpOpCachedScripts, phpOpCachedKeys,
        phpAPCuHits, phpAPCuMisses, phpAPCuInserts, phpAPCuEntries,
        databaseSizeDesc, systemInfoDesc, phpInfoDesc]"
  unfolding example_success_descs
  by (simp add: nextcloudCollector_Describe_def example_pipeline(3) desc_neq desc_neq_sym)

end
